theory Spec2Isabelle
  imports Main "HOL-Library.Word" "HOL-Library.Monad_Syntax"
begin

unbundle bit_operations_syntax

section \<open>The line buffer of package runeutil (RuneBuffer)\<close>

text \<open>
  A shallow embedding of \<^verbatim>\<open>RuneBuffer\<close> and of the input loop of
  \<^verbatim>\<open>Terminal\<close>. A Go \<^verbatim>\<open>rune\<close> (int32) is an \<open>int\<close>, a Go \<^verbatim>\<open>int\<close> is an \<open>int\<close>
  (no arithmetic of the buffer comes near the 64-bit range), a \<^verbatim>\<open>byte\<close> is an
  \<open>8 word\<close>, a slice is the list of its elements. A run-time panic (index or slice
  bounds out of range) is the value \<open>None\<close>.

  Slices are modelled without their capacity: a slice expression is in range when
  its bounds lie within the length. Go allows the upper bound of \<^verbatim>\<open>s[:hi]\<close> to reach
  \<^verbatim>\<open>cap(s)\<close>; the two readings differ only for a cursor beyond the end of the buffer.
  A loop that need not end is a partial function into \<open>option\<close>, so a call that does not
  return is \<open>None\<close> as well.

  A list is a value, so the sharing of arrays is not modelled. In Go the snapshot that
  \<^verbatim>\<open>Backup\<close> keeps is the slice header of the buffer: it shares the array of the buffer
  until an append moves the buffer to a new array, and an operation that writes in
  place can change the codepoints under the snapshot. It cannot change the length or
  the cursor of the snapshot, and the properties below read nothing else of a restored
  buffer.
\<close>

type_synonym rune = int
type_synonym byte = "8 word"

subsection \<open>Go slice expressions\<close>

definition at :: "'a list \<Rightarrow> int \<Rightarrow> 'a option" where
  \<comment> \<open>\<^verbatim>\<open>s[i]\<close>\<close>
  "at s i = (if 0 \<le> i \<and> i < int (length s) then Some (s ! nat i) else None)"

definition slice :: "'a list \<Rightarrow> int \<Rightarrow> int \<Rightarrow> 'a list option" where
  \<comment> \<open>\<^verbatim>\<open>s[lo:hi]\<close>\<close>
  "slice s lo hi =
     (if 0 \<le> lo \<and> lo \<le> hi \<and> hi \<le> int (length s)
      then Some (take (nat (hi - lo)) (drop (nat lo) s)) else None)"

definition slice_from :: "'a list \<Rightarrow> int \<Rightarrow> 'a list option" where
  \<comment> \<open>\<^verbatim>\<open>s[lo:]\<close>\<close>
  "slice_from s lo = slice s lo (int (length s))"

definition slice_to :: "'a list \<Rightarrow> int \<Rightarrow> 'a list option" where
  \<comment> \<open>\<^verbatim>\<open>s[:hi]\<close>\<close>
  "slice_to s hi = slice s 0 hi"

definition copy :: "'a list \<Rightarrow> 'a list \<Rightarrow> nat \<times> 'a list" where
  \<comment> \<open>The builtin \<^verbatim>\<open>copy(dst, src)\<close>: the number of elements copied and the new
      contents of \<^verbatim>\<open>dst\<close>.\<close>
  "copy dst src = (let n = min (length dst) (length src) in (n, take n src @ drop n dst))"

definition Copy :: "rune list \<Rightarrow> rune list" where
  \<comment> \<open>Modelled from the spec: \<^verbatim>\<open>runeutil.Copy\<close> is not among the source files. The
      kill slot "holds ... previously-deleted span" and is "copied, not moved": a fresh
      slice with the same codepoints.\<close>
  "Copy s = s"

definition CopyAndGrow :: "rune list \<Rightarrow> nat \<Rightarrow> rune list" where
  \<comment> \<open>Modelled from the spec: \<^verbatim>\<open>runeutil.CopyAndGrow\<close> is not among the source files.
      \<^verbatim>\<open>setBuf\<close> calls it with \<^verbatim>\<open>cap(buf)-len(buf)\<close> to take a snapshot of \<^verbatim>\<open>buf\<close>:
      a fresh slice with the same codepoints and that much spare capacity.\<close>
  "CopyAndGrow s n = s"

subsection \<open>Strings: the UTF-8 conversions of the Go language\<close>

text \<open>
  A Go \<^verbatim>\<open>string\<close> is a byte sequence. The conversions \<^verbatim>\<open>string(r)\<close>, \<^verbatim>\<open>string(rs)\<close> and
  \<^verbatim>\<open>[]rune(s)\<close> are those of package \<^verbatim>\<open>unicode/utf8\<close>: an invalid codepoint is encoded
  as U+FFFD, an invalid byte is decoded as U+FFFD and one byte is consumed.
\<close>

definition RuneError :: rune where
  "RuneError = 0xFFFD"

definition EncodeRune :: "rune \<Rightarrow> byte list" where
  "EncodeRune r =
     (if 0 \<le> r \<and> r \<le> 0x7F then [word_of_int r]
      else if 0 \<le> r \<and> r \<le> 0x7FF then
        [0xC0 OR word_of_int (drop_bit 6 r), 0x80 OR (word_of_int r AND 0x3F)]
      else if r < 0 \<or> 0x10FFFF < r \<or> (0xD800 \<le> r \<and> r \<le> 0xDFFF) then [0xEF, 0xBF, 0xBD]
      else if r \<le> 0xFFFF then
        [0xE0 OR word_of_int (drop_bit 12 r),
         0x80 OR (word_of_int (drop_bit 6 r) AND 0x3F),
         0x80 OR (word_of_int r AND 0x3F)]
      else
        [0xF0 OR word_of_int (drop_bit 18 r),
         0x80 OR (word_of_int (drop_bit 12 r) AND 0x3F),
         0x80 OR (word_of_int (drop_bit 6 r) AND 0x3F),
         0x80 OR (word_of_int r AND 0x3F)])"

definition string_of_runes :: "rune list \<Rightarrow> byte list" where
  \<comment> \<open>\<^verbatim>\<open>string(rs)\<close>\<close>
  "string_of_runes rs = concat (map EncodeRune rs)"

definition cont :: "byte \<Rightarrow> byte \<Rightarrow> byte \<Rightarrow> bool" where
  "cont lo hi b = (lo \<le> b \<and> b \<le> hi)"

definition low6 :: "byte \<Rightarrow> int" where
  "low6 b = uint (b AND 0x3F)"

fun DecodeRune :: "byte list \<Rightarrow> rune \<times> nat" where
  "DecodeRune [] = (RuneError, 0)"
| "DecodeRune (p0 # ps) =
     (if p0 < 0x80 then (uint p0, 1)
      else if p0 < 0xC2 \<or> 0xF4 < p0 then (RuneError, 1)
      else if p0 \<le> 0xDF then
        (case ps of
           b1 # _ \<Rightarrow>
             if cont 0x80 0xBF b1 then (push_bit 6 (uint (p0 AND 0x1F)) OR low6 b1, 2)
             else (RuneError, 1)
         | _ \<Rightarrow> (RuneError, 1))
      else if p0 \<le> 0xEF then
        (case ps of
           b1 # b2 # _ \<Rightarrow>
             if cont (if p0 = 0xE0 then 0xA0 else 0x80) (if p0 = 0xED then 0x9F else 0xBF) b1
                \<and> cont 0x80 0xBF b2
             then (push_bit 12 (uint (p0 AND 0x0F)) OR push_bit 6 (low6 b1) OR low6 b2, 3)
             else (RuneError, 1)
         | _ \<Rightarrow> (RuneError, 1))
      else
        (case ps of
           b1 # b2 # b3 # _ \<Rightarrow>
             if cont (if p0 = 0xF0 then 0x90 else 0x80) (if p0 = 0xF4 then 0x8F else 0xBF) b1
                \<and> cont 0x80 0xBF b2 \<and> cont 0x80 0xBF b3
             then (push_bit 18 (uint (p0 AND 0x07)) OR push_bit 12 (low6 b1)
                   OR push_bit 6 (low6 b2) OR low6 b3, 4)
             else (RuneError, 1)
         | _ \<Rightarrow> (RuneError, 1)))"

function runes_of_string :: "byte list \<Rightarrow> rune list" where
  \<comment> \<open>\<^verbatim>\<open>[]rune(s)\<close>\<close>
  "runes_of_string [] = []"
| "runes_of_string (p0 # ps) =
     (let (r, n) = DecodeRune (p0 # ps) in r # runes_of_string (drop (n - 1) ps))"
  by pat_completeness auto
termination
  by (relation "measure length") auto

function digits :: "nat \<Rightarrow> byte list" where
  "digits n = (if n < 10 then [0x30 + word_of_nat n]
               else digits (n div 10) @ [0x30 + word_of_nat (n mod 10)])"
  by pat_completeness auto
termination
  by (relation "measure id") auto

definition Itoa :: "int \<Rightarrow> byte list" where
  \<comment> \<open>\<^verbatim>\<open>strconv.Itoa\<close>: the decimal digits, after a minus sign for a negative number.\<close>
  "Itoa n = (if n < 0 then 0x2D # digits (nat (- n)) else digits (nat n))"

subsection \<open>The buffer\<close>

record RuneBuffer =
  prompt :: "rune list"
  promptWidth :: int
  mask :: rune
  interactive :: bool
  screenWidth :: int
  idx :: int
  buf :: "rune list"
  backup :: "(rune list \<times> int) option"
  hadClean :: bool
  lastKill :: "rune list"

text \<open>
  The writer \<^verbatim>\<open>w\<close> and the mutex are left out. The bytes a redraw writes change no
  field and are not traced; the redraw itself is part of every operation, since
  computing its bytes (\<open>outputPrint\<close> below) can panic or fail to return. The loop
  that edits the buffer is sequential.
\<close>

text \<open>
  The width and format model (\<^verbatim>\<open>IsWordBreak\<close>, \<^verbatim>\<open>WidthAll\<close>, \<^verbatim>\<open>ColorFilter\<close>,
  \<^verbatim>\<open>SplitByLine\<close>, \<^verbatim>\<open>TabWidth\<close>) is not among the source files. The buffer only calls
  it, so the model takes it as a parameter.
\<close>

record FormatModel =
  IsWordBreak :: "rune \<Rightarrow> bool"
  WidthAll :: "rune list \<Rightarrow> int"
  ColorFilter :: "rune list \<Rightarrow> rune list"
  SplitByLine :: "int \<Rightarrow> int \<Rightarrow> rune list \<Rightarrow> byte list list"
  TabWidth :: nat

subsection \<open>What a redraw prints\<close>

text \<open>
  The first loop of \<^verbatim>\<open>getBackspaceSequence\<close> collects the keys of the map \<^verbatim>\<open>sep\<close>. Its
  counter is reset whenever it is \<open>0\<close>, so the loop need not end: not returning is
  the value \<open>None\<close>.
\<close>

partial_function (option) sepLoop :: "int \<Rightarrow> int \<Rightarrow> int \<Rightarrow> int \<Rightarrow> int list \<Rightarrow> int list option" where
  "sepLoop pw sw sz i sep =
     (if i < sz then
        (let i1 = (if i = 0 then i - pw else i);
             i2 = i1 + sw
         in sepLoop pw sw sz (i2 + 1) (i2 # sep))
      else Some sep)"

function backLoop :: "int list \<Rightarrow> int \<Rightarrow> int \<Rightarrow> int \<Rightarrow> byte list" where
  \<comment> \<open>\<^verbatim>\<open>for idx := len(rb.buf); idx > rb.idx; idx--\<close>\<close>
  "backLoop sep sw stop i =
     (if i > stop then
        (if i \<in> set sep
         then ([0x1B, 0x5B, 0x41] @ [0x0D] @ [0x1B, 0x5B] @ Itoa sw @ [0x43])
              @ backLoop sep sw stop (i - 1)
         else 0x08 # backLoop sep sw stop (i - 1))
      else [])"
  by pat_completeness auto
termination
  by (relation "measure (\<lambda>(sep, sw, stop, i). nat (i - stop))") auto

definition getBackspaceSequence :: "FormatModel \<Rightarrow> RuneBuffer \<Rightarrow> byte list option" where
  "getBackspaceSequence M rb = do {
     sep \<leftarrow> sepLoop (promptWidth rb) (screenWidth rb) (WidthAll M (buf rb)) 0 [];
     Some (backLoop sep (screenWidth rb) (idx rb) (int (length (buf rb))))
   }"

definition isInLineEdge :: "FormatModel \<Rightarrow> RuneBuffer \<Rightarrow> bool option" where
  "isInLineEdge M rb =
     (let sp = SplitByLine M (promptWidth rb) (screenWidth rb) (buf rb)
      in do { l \<leftarrow> at sp (int (length sp) - 1); Some (length l = 0) })"

definition outputPrint :: "FormatModel \<Rightarrow> RuneBuffer \<Rightarrow> byte list option" where
  "outputPrint M rb = do {
     let out0 = string_of_runes (prompt rb);
     out1 \<leftarrow>
       (if mask rb \<noteq> 0 \<and> length (buf rb) > 0 then do {
          let o1 = out0 @ concat (replicate (length (buf rb) - 1) (EncodeRune (mask rb)));
          l \<leftarrow> at (buf rb) (int (length (buf rb)) - 1);
          let o2 = o1 @ (if l = 0x0A then [0x0A] else EncodeRune (mask rb));
          if int (length (buf rb)) > idx rb
          then do { bs \<leftarrow> getBackspaceSequence M rb; Some (o2 @ bs) }
          else Some o2
        } else do {
          let o1 = out0 @ concat (map (\<lambda>c. if c = 0x09 then replicate (TabWidth M) 0x20
                                             else EncodeRune c) (buf rb));
          edge \<leftarrow> isInLineEdge M rb;
          Some (if edge then o1 @ [0x20, 0x08] else o1)
        });
     if int (length (buf rb)) > idx rb
     then do { bs \<leftarrow> getBackspaceSequence M rb; Some (out1 @ bs) }
     else Some out1
   }"

subsection \<open>The redraw wrapper and the setters\<close>

datatype error = ErrInvalidScreenWidth int

definition setScreenWidth :: "int \<Rightarrow> RuneBuffer \<Rightarrow> error option \<times> RuneBuffer" where
  "setScreenWidth v rb =
     (if v \<le> 0 then (Some (ErrInvalidScreenWidth v), rb)
      else (None, rb\<lparr>screenWidth := v\<rparr>))"

definition clean :: "RuneBuffer \<Rightarrow> RuneBuffer option" where
  \<comment> \<open>\<^verbatim>\<open>clean\<close> evaluates \<^verbatim>\<open>idxLine()\<close>, which slices \<^verbatim>\<open>rb.buf[:rb.idx]\<close>, before
      \<^verbatim>\<open>cleanWithIdxLine\<close> tests the flags. When the screen width is not positive,
      \<^verbatim>\<open>outputCleanWithIdxLine\<close> calls \<^verbatim>\<open>strings.Repeat\<close> with the count
      \<^verbatim>\<open>rb.promptWidth+len(rb.buf)\<close>, which panics when the count is negative.\<close>
  "clean rb = do {
     _ \<leftarrow> slice_to (buf rb) (idx rb);
     if hadClean rb \<or> \<not> interactive rb then Some rb
     else if screenWidth rb \<le> 0 \<and> promptWidth rb + int (length (buf rb)) < 0 then None
     else Some (rb\<lparr>hadClean := True\<rparr>)
   }"

definition print :: "FormatModel \<Rightarrow> RuneBuffer \<Rightarrow> RuneBuffer option" where
  \<comment> \<open>The flag is reset, then the bytes of \<^verbatim>\<open>outputPrint\<close> are computed and written.\<close>
  "print M rb = do {
     let rb1 = rb\<lparr>hadClean := False\<rparr>;
     _ \<leftarrow> outputPrint M rb1;
     Some rb1
   }"

definition Refresh ::
  "FormatModel \<Rightarrow> (RuneBuffer \<Rightarrow> ('a \<times> RuneBuffer) option) \<Rightarrow> RuneBuffer
     \<Rightarrow> ('a \<times> RuneBuffer) option" where
  \<comment> \<open>The closure \<^verbatim>\<open>f\<close> returns what it assigns to the variables it captures
      (\<^verbatim>\<open>success\<close>, \<^verbatim>\<open>err\<close>) together with the buffer.\<close>
  "Refresh M f rb =
     (if \<not> interactive rb then f rb
      else do {
        rb1 \<leftarrow> clean rb;
        (r, rb2) \<leftarrow> f rb1;
        rb3 \<leftarrow> print M rb2;
        Some (r, rb3)
      })"

definition SetScreenWidth :: "FormatModel \<Rightarrow> int \<Rightarrow> RuneBuffer \<Rightarrow> (error option \<times> RuneBuffer) option" where
  "SetScreenWidth M v = Refresh M (\<lambda>rb. Some (setScreenWidth v rb))"



definition resetBuf :: "RuneBuffer \<Rightarrow> RuneBuffer" where
  "resetBuf rb = rb\<lparr>idx := 0, buf := []\<rparr>"


definition ResetBuf :: "RuneBuffer \<Rightarrow> RuneBuffer" where
  "ResetBuf rb = resetBuf rb"



definition pushKill :: "rune list \<Rightarrow> RuneBuffer \<Rightarrow> RuneBuffer" where
  "pushKill s rb = rb\<lparr>lastKill := Copy s\<rparr>"

subsection \<open>Writing and inserting\<close>

definition WriteRunes :: "FormatModel \<Rightarrow> rune list \<Rightarrow> RuneBuffer \<Rightarrow> (unit \<times> RuneBuffer) option" where
  "WriteRunes M s = Refresh M (\<lambda>rb. do {
     rem \<leftarrow> slice_from (buf rb) (idx rb);
     let tail = CopyAndGrow s (length rem) @ rem;
     pre \<leftarrow> slice_to (buf rb) (idx rb);
     Some ((), rb\<lparr>buf := pre @ tail, idx := idx rb + int (length s)\<rparr>)
   })"

definition WriteRune :: "FormatModel \<Rightarrow> rune \<Rightarrow> RuneBuffer \<Rightarrow> (unit \<times> RuneBuffer) option" where
  "WriteRune M r = WriteRunes M [r]"

definition InsertRunes :: "FormatModel \<Rightarrow> rune list \<Rightarrow> RuneBuffer \<Rightarrow> (unit \<times> RuneBuffer) option" where
  \<comment> \<open>\<^verbatim>\<open>copy\<close> overwrites the tail of the buffer in place; what did not fit is
      appended.\<close>
  "InsertRunes M s = Refresh M (\<lambda>rb. do {
     rem \<leftarrow> slice_from (buf rb) (idx rb);
     let (n, rem') = copy rem s;
     rest \<leftarrow> slice_from s (int n);
     Some ((), rb\<lparr>buf := (take (nat (idx rb)) (buf rb) @ rem') @ rest,
                  idx := idx rb + int (length s)\<rparr>)
   })"

definition InsertRune :: "FormatModel \<Rightarrow> rune \<Rightarrow> RuneBuffer \<Rightarrow> (unit \<times> RuneBuffer) option" where
  "InsertRune M r = InsertRunes M [r]"

subsection \<open>Cursor motion\<close>

definition MoveToLineStart :: "FormatModel \<Rightarrow> RuneBuffer \<Rightarrow> (bool \<times> RuneBuffer) option" where
  "MoveToLineStart M = Refresh M (\<lambda>rb.
     if idx rb = 0 then Some (False, rb) else Some (True, rb\<lparr>idx := 0\<rparr>))"

definition MoveToLineEnd :: "FormatModel \<Rightarrow> RuneBuffer \<Rightarrow> (bool \<times> RuneBuffer) option" where
  "MoveToLineEnd M = Refresh M (\<lambda>rb.
     if idx rb = int (length (buf rb)) then Some (False, rb)
     else Some (True, rb\<lparr>idx := int (length (buf rb))\<rparr>))"

definition MoveBackward :: "FormatModel \<Rightarrow> RuneBuffer \<Rightarrow> (bool \<times> RuneBuffer) option" where
  "MoveBackward M = Refresh M (\<lambda>rb.
     if idx rb = 0 then Some (False, rb) else Some (True, rb\<lparr>idx := idx rb - 1\<rparr>))"

definition MoveForward :: "FormatModel \<Rightarrow> RuneBuffer \<Rightarrow> (bool \<times> RuneBuffer) option" where
  "MoveForward M = Refresh M (\<lambda>rb.
     if idx rb = int (length (buf rb)) then Some (False, rb)
     else Some (True, rb\<lparr>idx := idx rb + 1\<rparr>))"

text \<open>
  \<^verbatim>\<open>IsWordBreak\<close> belongs to the width and format model, which is not among the source
  files: the word operations read it from the model \<open>M\<close> and hand it to their loops as
  the parameter \<open>wb\<close>.

  The loop \<^verbatim>\<open>for i := start; i > 0; i-- { if !IsWordBreak(buf[i]) && IsWordBreak(buf[i-1]) ... }\<close>
  of \<^verbatim>\<open>MoveToPrevWord\<close> and \<^verbatim>\<open>KillWordFront\<close>: the index it stops at, if any.
\<close>

function scanPrev :: "(rune \<Rightarrow> bool) \<Rightarrow> rune list \<Rightarrow> int \<Rightarrow> int option option" where
  "scanPrev wb b i =
     (if i > 0 then do {
        c \<leftarrow> at b i;
        hit \<leftarrow> (if \<not> wb c then do { p \<leftarrow> at b (i - 1); Some (wb p) } else Some False);
        if hit then Some (Some i) else scanPrev wb b (i - 1)
      } else Some None)"
  by pat_completeness auto
termination
  by (relation "measure (\<lambda>(wb, b, i). nat i)") auto

text \<open>
  The loop \<^verbatim>\<open>for i := start; i < len(buf); i++\<close> with the same test, of
  \<^verbatim>\<open>MoveToNextWord\<close> and \<^verbatim>\<open>KillWord\<close>.
\<close>

function scanNext :: "(rune \<Rightarrow> bool) \<Rightarrow> rune list \<Rightarrow> int \<Rightarrow> int option option" where
  "scanNext wb b i =
     (if i < int (length b) then do {
        c \<leftarrow> at b i;
        hit \<leftarrow> (if \<not> wb c then do { p \<leftarrow> at b (i - 1); Some (wb p) } else Some False);
        if hit then Some (Some i) else scanNext wb b (i + 1)
      } else Some None)"
  by pat_completeness auto
termination
  by (relation "measure (\<lambda>(wb, b, i). nat (int (length b) - i))") auto

text \<open>The loop of \<^verbatim>\<open>MoveToEndWord\<close>: a break character after a non-break one.\<close>

function scanEnd :: "(rune \<Rightarrow> bool) \<Rightarrow> rune list \<Rightarrow> int \<Rightarrow> int option option" where
  "scanEnd wb b i =
     (if i < int (length b) then do {
        c \<leftarrow> at b i;
        hit \<leftarrow> (if wb c then do { p \<leftarrow> at b (i - 1); Some (\<not> wb p) } else Some False);
        if hit then Some (Some i) else scanEnd wb b (i + 1)
      } else Some None)"
  by pat_completeness auto
termination
  by (relation "measure (\<lambda>(wb, b, i). nat (int (length b) - i))") auto

definition MoveToPrevWord :: "FormatModel \<Rightarrow> RuneBuffer \<Rightarrow> (bool \<times> RuneBuffer) option" where
  "MoveToPrevWord M = Refresh M (\<lambda>rb.
     if idx rb = 0 then Some (False, rb)
     else do {
       r \<leftarrow> scanPrev (IsWordBreak M) (buf rb) (idx rb - 1);
       case r of
         Some i \<Rightarrow> Some (True, rb\<lparr>idx := i\<rparr>)
       | None \<Rightarrow> Some (True, rb\<lparr>idx := 0\<rparr>)
     })"

definition MoveToNextWord :: "FormatModel \<Rightarrow> RuneBuffer \<Rightarrow> (bool \<times> RuneBuffer) option" where
  "MoveToNextWord M = Refresh M (\<lambda>rb. do {
     r \<leftarrow> scanNext (IsWordBreak M) (buf rb) (idx rb + 1);
     case r of
       Some i \<Rightarrow> Some (True, rb\<lparr>idx := i\<rparr>)
     | None \<Rightarrow> Some (True, rb\<lparr>idx := int (length (buf rb))\<rparr>)
   })"


function findBack :: "rune list \<Rightarrow> rune \<Rightarrow> int \<Rightarrow> int option option" where
  "findBack b ch i =
     (if i \<ge> 0 then do {
        c \<leftarrow> at b i;
        if c = ch then Some (Some i) else findBack b ch (i - 1)
      } else Some None)"
  by pat_completeness auto
termination
  by (relation "measure (\<lambda>(b, ch, i). nat (i + 1))") auto

function findFwd :: "rune list \<Rightarrow> rune \<Rightarrow> int \<Rightarrow> int option option" where
  "findFwd b ch i =
     (if i < int (length b) then do {
        c \<leftarrow> at b i;
        if c = ch then Some (Some i) else findFwd b ch (i + 1)
      } else Some None)"
  by pat_completeness auto
termination
  by (relation "measure (\<lambda>(b, ch, i). nat (int (length b) - i))") auto


subsection \<open>Deleting, killing and yanking\<close>

definition Backspace :: "FormatModel \<Rightarrow> RuneBuffer \<Rightarrow> (bool \<times> RuneBuffer) option" where
  "Backspace M = Refresh M (\<lambda>rb.
     if idx rb = 0 then Some (False, rb)
     else do {
       let i = idx rb - 1;
       pre \<leftarrow> slice_to (buf rb) i;
       post \<leftarrow> slice_from (buf rb) (i + 1);
       Some (True, rb\<lparr>idx := i, buf := pre @ post\<rparr>)
     })"

definition Transpose :: "FormatModel \<Rightarrow> RuneBuffer \<Rightarrow> (bool \<times> RuneBuffer) option" where
  "Transpose M = Refresh M (\<lambda>rb.
     if int (length (buf rb)) \<le> 1 then Some (False, rb)
     else if idx rb = 0 then Some (False, rb)
     else do {
       let i = (if idx rb \<ge> int (length (buf rb)) then int (length (buf rb)) - 1 else idx rb);
       x \<leftarrow> at (buf rb) (i - 1);
       y \<leftarrow> at (buf rb) i;
       Some (True, rb\<lparr>buf := (buf rb)[nat i := x, nat (i - 1) := y], idx := i + 1\<rparr>)
     })"


definition Delete :: "FormatModel \<Rightarrow> RuneBuffer \<Rightarrow> (bool \<times> RuneBuffer) option" where
  "Delete M = Refresh M (\<lambda>rb.
     if idx rb = int (length (buf rb)) then Some (False, rb)
     else do {
       k \<leftarrow> slice (buf rb) (idx rb) (idx rb + 1);
       let rb1 = pushKill k rb;
       pre \<leftarrow> slice_to (buf rb1) (idx rb1);
       post \<leftarrow> slice_from (buf rb1) (idx rb1 + 1);
       Some (True, rb1\<lparr>buf := pre @ post\<rparr>)
     })"

function skipBreaks :: "(rune \<Rightarrow> bool) \<Rightarrow> rune list \<Rightarrow> int \<Rightarrow> int option" where
  \<comment> \<open>\<^verbatim>\<open>for init < len(rb.buf) && IsWordBreak(rb.buf[init]) { init++ }\<close>\<close>
  "skipBreaks wb b i =
     (if i < int (length b) then do {
        c \<leftarrow> at b i;
        if wb c then skipBreaks wb b (i + 1) else Some i
      } else Some i)"
  by pat_completeness auto
termination
  by (relation "measure (\<lambda>(wb, b, i). nat (int (length b) - i))") auto

definition KillWord :: "FormatModel \<Rightarrow> RuneBuffer \<Rightarrow> (bool \<times> RuneBuffer) option" where
  "KillWord M = Refresh M (\<lambda>rb.
     if idx rb = int (length (buf rb)) then Some (False, rb)
     else do {
       init \<leftarrow> skipBreaks (IsWordBreak M) (buf rb) (idx rb);
       r \<leftarrow> scanNext (IsWordBreak M) (buf rb) (init + 1);
       case r of
         Some i \<Rightarrow> do {
           k \<leftarrow> slice (buf rb) (idx rb) (i - 1);
           let rb1 = pushKill k rb;
           pre \<leftarrow> slice_to (buf rb1) (idx rb1);
           post \<leftarrow> slice_from (buf rb1) (i - 1);
           Some (True, rb1\<lparr>buf := pre @ post\<rparr>)
         }
       | None \<Rightarrow> do {
           k \<leftarrow> slice_from (buf rb) (idx rb);
           let rb1 = pushKill k rb;
           pre \<leftarrow> slice_to (buf rb1) (idx rb1);
           Some (True, rb1\<lparr>buf := pre\<rparr>)
         }
     })"

definition KillWordFront :: "FormatModel \<Rightarrow> RuneBuffer \<Rightarrow> (bool \<times> RuneBuffer) option" where
  "KillWordFront M = Refresh M (\<lambda>rb.
     if idx rb = 0 then Some (False, rb)
     else do {
       r \<leftarrow> scanPrev (IsWordBreak M) (buf rb) (idx rb - 1);
       case r of
         Some i \<Rightarrow> do {
           k \<leftarrow> slice (buf rb) i (idx rb);
           let rb1 = pushKill k rb;
           pre \<leftarrow> slice_to (buf rb1) i;
           post \<leftarrow> slice_from (buf rb1) (idx rb1);
           Some (True, rb1\<lparr>buf := pre @ post, idx := i\<rparr>)
         }
       | None \<Rightarrow> Some (True, rb\<lparr>buf := [], idx := 0\<rparr>)
     })"

definition Kill :: "FormatModel \<Rightarrow> RuneBuffer \<Rightarrow> (bool \<times> RuneBuffer) option" where
  "Kill M = Refresh M (\<lambda>rb.
     if idx rb = int (length (buf rb)) then Some (False, rb)
     else do {
       k \<leftarrow> slice_from (buf rb) (idx rb);
       let rb1 = pushKill k rb;
       pre \<leftarrow> slice_to (buf rb1) (idx rb1);
       Some (True, rb1\<lparr>buf := pre\<rparr>)
     })"

definition KillFront :: "FormatModel \<Rightarrow> RuneBuffer \<Rightarrow> (bool \<times> RuneBuffer) option" where
  "KillFront M = Refresh M (\<lambda>rb.
     if idx rb = 0 then Some (False, rb)
     else do {
       let len = int (length (buf rb)) - idx rb;
       k \<leftarrow> slice_to (buf rb) (idx rb);
       let rb1 = pushKill k rb;
       dst \<leftarrow> slice_to (buf rb1) len;
       src \<leftarrow> slice_from (buf rb1) (idx rb1);
       let b1 = snd (copy dst src) @ drop (nat len) (buf rb1);
       b2 \<leftarrow> slice_to b1 len;
       Some (True, rb1\<lparr>idx := 0, buf := b2\<rparr>)
     })"

definition Yank :: "FormatModel \<Rightarrow> RuneBuffer \<Rightarrow> (bool \<times> RuneBuffer) option" where
  \<comment> \<open>The test of the kill slot stands before \<^verbatim>\<open>Refresh\<close>.\<close>
  "Yank M rb =
     (if length (lastKill rb) = 0 then Some (False, rb)
      else Refresh M (\<lambda>rb. do {
        pre \<leftarrow> slice_to (buf rb) (idx rb);
        post \<leftarrow> slice_from (buf rb) (idx rb);
        Some (True, rb\<lparr>buf := (pre @ lastKill rb) @ post,
                        idx := idx rb + int (length (lastKill rb))\<rparr>)
      }) rb)"

subsection \<open>Construction and the other setters\<close>








subsection \<open>Sequences of operations\<close>






section \<open>The input loop of Terminal\<close>

text \<open>
  The loop \<^verbatim>\<open>Terminal.ioloop\<close> reads the input through a buffered reader. The input is
  the list of the bytes still to be read; when it is empty \<^verbatim>\<open>ReadByte\<close> fails with
  \<^verbatim>\<open>io.EOF\<close>. The context of the terminal is not cancelled while the loop runs, and a
  read interrupted by a signal is the separate transition \<open>interrupted\<close>. The bytes the
  buffer writes when it redraws are not traced; \<open>written\<close> holds the bytes the terminal
  writes itself.
\<close>

subsection \<open>Byte-level entry points of the buffer\<close>

definition Bytes :: "RuneBuffer \<Rightarrow> byte list" where
  "Bytes rb = string_of_runes (Copy (buf rb))"

definition WriteBytes :: "FormatModel \<Rightarrow> byte list \<Rightarrow> RuneBuffer \<Rightarrow> (unit \<times> RuneBuffer) option" where
  "WriteBytes M p = WriteRunes M (runes_of_string p)"

definition InsertBytes :: "FormatModel \<Rightarrow> byte list \<Rightarrow> RuneBuffer \<Rightarrow> (unit \<times> RuneBuffer) option" where
  "InsertBytes M p = InsertRunes M (runes_of_string p)"

definition Clear :: "FormatModel \<Rightarrow> RuneBuffer \<Rightarrow> (unit \<times> RuneBuffer) option" where
  "Clear M = Refresh M (\<lambda>rb. Some ((), rb))"

subsection \<open>Control characters\<close>

text \<open>The constants that \<^verbatim>\<open>chars.go\<close> gives a role.\<close>

definition CharLineStart :: byte where "CharLineStart = 0x01"
definition CharBackward :: byte where "CharBackward = 0x02"
definition CharInterrupt :: byte where "CharInterrupt = 0x03"
definition CharDelete :: byte where "CharDelete = 0x04"
definition CharLineEnd :: byte where "CharLineEnd = 0x05"
definition CharForward :: byte where "CharForward = 0x06"
definition CharBell :: byte where "CharBell = 0x07"
definition CharTab :: byte where "CharTab = 0x09"
definition CharKill :: byte where "CharKill = 0x0B"
definition CharNext :: byte where "CharNext = 0x0E"
definition CharPrev :: byte where "CharPrev = 0x10"
definition CharBckSearch :: byte where "CharBckSearch = 0x12"
definition CharFwdSearch :: byte where "CharFwdSearch = 0x13"
definition CharTranspose :: byte where "CharTranspose = 0x14"
definition CharBackspace :: byte where "CharBackspace = 0x7F"

text \<open>
  The loop names eight constants that \<^verbatim>\<open>chars.go\<close> does not declare. They carry the
  values of the control characters that \<^verbatim>\<open>chars.go\<close> lists without a role (\<^verbatim>\<open>CharCtrlH\<close>,
  \<^verbatim>\<open>CharCtrlJ\<close>, \<^verbatim>\<open>CharCtrlL\<close>, \<^verbatim>\<open>CharCtrlM\<close>, \<^verbatim>\<open>CharCtrlU\<close>, \<^verbatim>\<open>CharCtrlW\<close>, \<^verbatim>\<open>CharCtrlY\<close>,
  \<^verbatim>\<open>CharEsc\<close>).
\<close>

definition CharBackspaceEx :: byte where
  \<comment> \<open>Modelled from the spec: the constant is not declared in the source files; the
      second backspace code is Ctrl-H.\<close>
  "CharBackspaceEx = 0x08"

definition CharFeed :: byte where
  \<comment> \<open>Modelled from the spec: the constant is not declared in the source files; the
      line feed is Ctrl-J.\<close>
  "CharFeed = 0x0A"

definition CharClear :: byte where
  \<comment> \<open>Modelled from the spec: the constant is not declared in the source files;
      "clear-screen" is Ctrl-L.\<close>
  "CharClear = 0x0C"

definition CharReturn :: byte where
  \<comment> \<open>Modelled from the spec: the constant is not declared in the source files;
      "enter/return" is the byte \<^verbatim>\<open>\r\<close> of the end-to-end example, Ctrl-M.\<close>
  "CharReturn = 0x0D"

definition CharKillFront :: byte where
  \<comment> \<open>Modelled from the spec: the constant is not declared in the source files;
      "kill-front" is Ctrl-U.\<close>
  "CharKillFront = 0x15"

definition CharKillWordFront :: byte where
  \<comment> \<open>Modelled from the spec: the constant is not declared in the source files;
      "kill-word-front" is Ctrl-W.\<close>
  "CharKillWordFront = 0x17"

definition CharYank :: byte where
  \<comment> \<open>Modelled from the spec: the constant is not declared in the source files; "yank"
      is Ctrl-Y.\<close>
  "CharYank = 0x19"

definition CharEscape :: byte where
  \<comment> \<open>Modelled from the spec: the constant is not declared in the source files; the
      "ESC byte" is \<^verbatim>\<open>CharEsc\<close> of \<^verbatim>\<open>chars.go\<close>.\<close>
  "CharEscape = 0x1B"

subsection \<open>The terminal and what lies outside the source files\<close>

datatype ioerror = ErrInterrupted | EOF

record lineResult =
  Line :: "byte list"
  Err :: "ioerror option"

record escapeKeyPair =
  Char :: byte
  Type :: byte
  Attribute :: int
  Attribute2 :: int
  Remainder :: "byte list"

text \<open>
  \<^verbatim>\<open>decodeEscapeKeyPair\<close> and \<^verbatim>\<open>encodeControlChars\<close> are not among the source files,
  and the growth of a slice that \<^verbatim>\<open>append\<close> must reallocate is the runtime's: the
  loop takes them as parameters, together with the format model.
\<close>

record Extern =
  model :: FormatModel
  decodeEscapeKeyPair :: "byte list \<Rightarrow> escapeKeyPair option"
  encodeControlChars :: "byte list \<Rightarrow> byte list"
  growslice :: "nat \<Rightarrow> nat \<Rightarrow> nat"

record Terminal =
  trb :: RuneBuffer
  ioInsMode :: bool
  lineResultCh :: "lineResult list"
  ioErr :: "ioerror option"
  written :: "byte list"

definition sendLineResult :: "byte list \<Rightarrow> ioerror option \<Rightarrow> Terminal \<Rightarrow> Terminal" where
  \<comment> \<open>A send that does not block, on a channel of capacity 1.\<close>
  "sendLineResult line e t =
     (if length (lineResultCh t) < 1
      then t\<lparr>lineResultCh := lineResultCh t @ [\<lparr>Line = line, Err = e\<rparr>]\<rparr>
      else t)"

definition bell :: "Terminal \<Rightarrow> Terminal" where
  "bell t = t\<lparr>written := written t @ [CharBell]\<rparr>"

definition on_buffer ::
  "(RuneBuffer \<Rightarrow> (bool \<times> RuneBuffer) option) \<Rightarrow> Terminal \<Rightarrow> Terminal option" where
  \<comment> \<open>The shape of the \<^verbatim>\<open>op\<close> methods: \<^verbatim>\<open>if !t.rb.F() { t.bell() }\<close>.\<close>
  "on_buffer f t = do {
     (ok, rb') \<leftarrow> f (trb t);
     let t1 = t\<lparr>trb := rb'\<rparr>;
     Some (if \<not> ok then bell t1 else t1)
   }"

definition opLineStart :: "Extern \<Rightarrow> Terminal \<Rightarrow> Terminal option" where
  "opLineStart X = on_buffer (MoveToLineStart (model X))"

definition opBackward :: "Extern \<Rightarrow> Terminal \<Rightarrow> Terminal option" where
  "opBackward X = on_buffer (MoveBackward (model X))"

definition opDelete :: "Extern \<Rightarrow> Terminal \<Rightarrow> Terminal option" where
  "opDelete X = on_buffer (Delete (model X))"

definition opLineEnd :: "Extern \<Rightarrow> Terminal \<Rightarrow> Terminal option" where
  "opLineEnd X = on_buffer (MoveToLineEnd (model X))"

definition opForward :: "Extern \<Rightarrow> Terminal \<Rightarrow> Terminal option" where
  "opForward X = on_buffer (MoveForward (model X))"

definition opBackspace :: "Extern \<Rightarrow> Terminal \<Rightarrow> Terminal option" where
  "opBackspace X = on_buffer (Backspace (model X))"

definition opTab :: "Terminal \<Rightarrow> Terminal option" where
  "opTab t = Some (bell t)"

definition opReturn :: "Extern \<Rightarrow> Terminal \<Rightarrow> Terminal option" where
  "opReturn X t = do {
     (_, rb1) \<leftarrow> MoveToLineEnd (model X) (trb t);
     (_, rb2) \<leftarrow> WriteRune (model X) 0x0A rb1;
     let p = Bytes rb2;
     p1 \<leftarrow> (if length p > 0 then slice_to p (int (length p) - 1) else Some p);
     let t1 = sendLineResult p1 None (t\<lparr>trb := rb2\<rparr>);
     Some (t1\<lparr>trb := ResetBuf (trb t1)\<rparr>)
   }"

definition opKill :: "Extern \<Rightarrow> Terminal \<Rightarrow> Terminal option" where
  "opKill X = on_buffer (Kill (model X))"

definition opClear :: "Extern \<Rightarrow> Terminal \<Rightarrow> Terminal option" where
  "opClear X t = do { (_, rb') \<leftarrow> Clear (model X) (trb t); Some (t\<lparr>trb := rb'\<rparr>) }"

definition opNext :: "Terminal \<Rightarrow> Terminal option" where
  "opNext t = Some t"

definition opPrev :: "Terminal \<Rightarrow> Terminal option" where
  "opPrev t = Some t"

definition opBckSearch :: "Terminal \<Rightarrow> Terminal option" where
  "opBckSearch t = Some t"

definition opFwdSearch :: "Terminal \<Rightarrow> Terminal option" where
  "opFwdSearch t = Some t"

definition opTranspose :: "Extern \<Rightarrow> Terminal \<Rightarrow> Terminal option" where
  "opTranspose X = on_buffer (Transpose (model X))"

definition opKillFront :: "Extern \<Rightarrow> Terminal \<Rightarrow> Terminal option" where
  "opKillFront X = on_buffer (KillFront (model X))"

definition opKillWord :: "Extern \<Rightarrow> Terminal \<Rightarrow> Terminal option" where
  "opKillWord X = on_buffer (KillWord (model X))"

definition opKillWordFront :: "Extern \<Rightarrow> Terminal \<Rightarrow> Terminal option" where
  "opKillWordFront X = on_buffer (KillWordFront (model X))"

definition opYank :: "Extern \<Rightarrow> Terminal \<Rightarrow> Terminal option" where
  "opYank X = on_buffer (Yank (model X))"

definition opBackwardWord :: "Extern \<Rightarrow> Terminal \<Rightarrow> Terminal option" where
  "opBackwardWord X = on_buffer (MoveToPrevWord (model X))"

definition opForwardWord :: "Extern \<Rightarrow> Terminal \<Rightarrow> Terminal option" where
  "opForwardWord X = on_buffer (MoveToNextWord (model X))"

definition screenSizeChanged ::
  "Extern \<Rightarrow> int \<Rightarrow> int \<Rightarrow> Terminal \<Rightarrow> Terminal option" where
  "screenSizeChanged X width height t =
     do { (_, rb') \<leftarrow> SetScreenWidth (model X) width (trb t); Some (t\<lparr>trb := rb'\<rparr>) }"

subsection \<open>Escape events\<close>

definition escapeTilda :: "Extern \<Rightarrow> escapeKeyPair \<Rightarrow> Terminal \<Rightarrow> Terminal option" where
  "escapeTilda X kp t =
     (if Attribute2 kp < 0 then
        (if Attribute kp = 1 then opLineStart X t
         else if Attribute kp = 2 then Some (t\<lparr>ioInsMode := \<not> ioInsMode t\<rparr>)
         else if Attribute kp = 3 then opDelete X t
         else if Attribute kp = 4 then opLineEnd X t
         else if Attribute kp = 5 then Some t
         else if Attribute kp = 6 then Some t
         else if Attribute kp = 7 then opLineStart X t
         else if Attribute kp = 8 then opLineEnd X t
         else Some (bell t))
      else Some (bell t))"

definition escapeR :: "Extern \<Rightarrow> escapeKeyPair \<Rightarrow> Terminal \<Rightarrow> Terminal option" where
  "escapeR X kp t =
     (if Attribute kp \<ge> 0 \<and> Attribute2 kp \<ge> 0
      then screenSizeChanged X (Attribute2 kp) (Attribute kp) t
      else Some (bell t))"

definition escapeEx :: "Extern \<Rightarrow> escapeKeyPair \<Rightarrow> Terminal \<Rightarrow> (bool \<times> Terminal) option" where
  "escapeEx X kp t =
     (if Type kp = 0x00 then Some (False, t)
      else if Type kp = 0x7E then do { t' \<leftarrow> escapeTilda X kp t; Some (True, t') }
      else if Type kp = 0x52 then do { t' \<leftarrow> escapeR X kp t; Some (True, t') }
      else do {
        t' \<leftarrow> (if Attribute kp \<le> 0 \<and> Attribute2 kp < 0 then
                 (if Type kp = 0x41 then opPrev t
                  else if Type kp = 0x42 then opNext t
                  else if Type kp = 0x43 then opForward X t
                  else if Type kp = 0x44 then opBackward X t
                  else if Type kp = 0x46 then opLineEnd X t
                  else if Type kp = 0x48 then opLineStart X t
                  else Some (bell t))
               else Some (bell t));
        Some (True, t')
      })"

definition escape :: "Extern \<Rightarrow> escapeKeyPair \<Rightarrow> Terminal \<Rightarrow> (bool \<times> Terminal) option" where
  "escape X kp t =
     (if Char kp = CharBackspace \<or> Char kp = CharBackspaceEx
        then do { t' \<leftarrow> opKillWordFront X t; Some (True, t') }
      else if Char kp = CharTranspose then do { t' \<leftarrow> opTranspose X t; Some (True, t') }
      else if Char kp = CharEscape then Some (True, t)
      else if Char kp = 0x4F \<or> Char kp = 0x5B then escapeEx X kp t
      else if Char kp = 0x62 then do { t' \<leftarrow> opBackwardWord X t; Some (True, t') }
      else if Char kp = 0x64 then do { t' \<leftarrow> opKillWord X t; Some (True, t') }
      else if Char kp = 0x66 then do { t' \<leftarrow> opForwardWord X t; Some (True, t') }
      else Some (True, bell t))"

subsection \<open>One pass of the loop\<close>

definition literal :: "Extern \<Rightarrow> byte list \<Rightarrow> Terminal \<Rightarrow> Terminal option" where
  \<comment> \<open>The \<^verbatim>\<open>default\<close> case of the switch: ordinary input.\<close>
  "literal X p t = do {
     let p1 = encodeControlChars X p;
     (_, rb') \<leftarrow> (if \<not> ioInsMode t then WriteBytes (model X) p1 (trb t) else InsertBytes (model X) p1 (trb t));
     Some (t\<lparr>trb := rb'\<rparr>)
   }"

definition dispatch ::
  "Extern \<Rightarrow> byte list \<Rightarrow> Terminal \<Rightarrow> (Terminal \<times> ioerror option) option" where
  \<comment> \<open>\<^verbatim>\<open>switch p[0]\<close>, for a non-empty \<^verbatim>\<open>p\<close>.\<close>
  "dispatch X p t = do {
     c \<leftarrow> at p 0;
     if c = CharInterrupt then Some (t, Some ErrInterrupted)
     else if c = CharDelete then Some (t, Some EOF)
     else do {
       t' \<leftarrow>
         (if c = CharLineStart then opLineStart X t
          else if c = CharBackward then opBackward X t
          else if c = CharLineEnd then opLineEnd X t
          else if c = CharForward then opForward X t
          else if c = CharBell then Some (bell t)
          else if c = CharBackspace \<or> c = CharBackspaceEx then opBackspace X t
          else if c = CharTab then opTab t
          else if c = CharFeed \<or> c = CharReturn then opReturn X t
          else if c = CharKill then opKill X t
          else if c = CharClear then opClear X t
          else if c = CharNext then opNext t
          else if c = CharPrev then opPrev t
          else if c = CharBckSearch then opBckSearch t
          else if c = CharFwdSearch then opFwdSearch t
          else if c = CharTranspose then opTranspose X t
          else if c = CharKillFront then opKillFront X t
          else if c = CharKillWordFront then opKillWordFront X t
          else if c = CharYank then opYank X t
          else literal X p t);
       Some (t', None)
     }
   }"

record loop =
  terminal :: Terminal
  escaped :: bool
  escBuf :: "byte list"
  escCap :: nat

definition append_esc :: "Extern \<Rightarrow> byte list \<Rightarrow> loop \<Rightarrow> loop" where
  \<comment> \<open>\<^verbatim>\<open>escBuf = append(escBuf, p...)\<close>: the capacity changes only when the bytes do
      not fit.\<close>
  "append_esc X p st =
     st\<lparr>escBuf := escBuf st @ p,
        escCap := (if length (escBuf st) + length p \<le> escCap st then escCap st
                   else growslice X (escCap st) (length (escBuf st) + length p))\<rparr>"

definition unhandled :: "Extern \<Rightarrow> nat \<Rightarrow> loop \<Rightarrow> (nat \<times> loop \<times> ioerror option) option" where
  \<comment> \<open>The \<^verbatim>\<open>else\<close> branch of the escape block: no event was decoded, or the handler
      refused it. The loop goes on accumulating while the buffer has room, and
      otherwise hands \<^verbatim>\<open>ESC\<close> and the accumulated bytes to the switch.\<close>
  "unhandled X n st =
     (if length (escBuf st) < escCap st then Some (n, st, None)
      else do {
        (t2, e) \<leftarrow> dispatch X (CharEscape # escBuf st) (terminal st);
        Some (n, st\<lparr>escaped := False, terminal := t2\<rparr>, e)
      })"

definition iteration ::
  "Extern \<Rightarrow> loop \<Rightarrow> byte \<Rightarrow> byte list \<Rightarrow> (nat \<times> loop \<times> ioerror option) option" where
  \<comment> \<open>One pass over the loop body with the byte \<open>b\<close> read and \<open>bs\<close> behind it: the
      number of bytes consumed, the new state, and the error that ends the loop.\<close>
  "iteration X st b bs = do {
     let (p, n) = (if b \<ge> 0x80 \<and> \<not> escaped st
                   then (let (r, k) = DecodeRune (b # bs) in (EncodeRune r, k))
                   else ([b], 1));
     if b = CharEscape \<or> escaped st then do {
       let st1 = (if \<not> escaped st then st\<lparr>escaped := True, escBuf := []\<rparr>
                  else append_esc X p st);
       case decodeEscapeKeyPair X (escBuf st1) of
         None \<Rightarrow> unhandled X n st1
       | Some kp \<Rightarrow> do {
           (handled, t1) \<leftarrow> escape X kp (terminal st1);
           let st2 = st1\<lparr>terminal := t1\<rparr>;
           if handled then
             (if length (Remainder kp) \<le> 0 then Some (n, st2\<lparr>escaped := False\<rparr>, None)
              else do {
                (t2, e) \<leftarrow> dispatch X (Remainder kp) t1;
                Some (n, st2\<lparr>escaped := False, terminal := t2\<rparr>, e)
              })
           else unhandled X n st2
         }
     } else if length p \<le> 0 then Some (n, st, None)
     else do {
       (t2, e) \<leftarrow> dispatch X p (terminal st);
       Some (n, st\<lparr>terminal := t2\<rparr>, e)
     }
   }"

definition interrupted :: "loop \<Rightarrow> loop" where
  \<comment> \<open>\<^verbatim>\<open>ReadByte\<close> failed with an interrupted system call.\<close>
  "interrupted st = st\<lparr>escaped := False, escBuf := []\<rparr>"

function feed :: "Extern \<Rightarrow> loop \<Rightarrow> byte list \<Rightarrow> (loop \<times> ioerror option) option" where
  \<comment> \<open>The passes of the loop over the bytes of the input, up to the read that finds
      the input empty.\<close>
  "feed X st [] = Some (st, None)"
| "feed X st (b # bs) =
     (case iteration X st b bs of
        None \<Rightarrow> None
      | Some (n, st', Some e) \<Rightarrow> Some (st', Some e)
      | Some (n, st', None) \<Rightarrow> feed X st' (drop (n - 1) bs))"
  by pat_completeness auto
termination
  by (relation "measure (\<lambda>(X, st, inp). length inp)") auto

definition new_loop :: "Terminal \<Rightarrow> loop" where
  \<comment> \<open>The locals of \<^verbatim>\<open>ioloop\<close> before its first pass.\<close>
  "new_loop t = \<lparr>terminal = t, escaped = False, escBuf = [], escCap = 16\<rparr>"

definition ioloop :: "Extern \<Rightarrow> Terminal \<Rightarrow> byte list \<Rightarrow> Terminal option" where
  \<comment> \<open>The whole loop on an input that ends: the last read fails with \<^verbatim>\<open>io.EOF\<close>.\<close>
  "ioloop X t inp = do {
     (st, e) \<leftarrow> feed X (new_loop t) inp;
     let err = (case e of None \<Rightarrow> EOF | Some e' \<Rightarrow> e');
     let t1 = (terminal st)\<lparr>ioErr := Some err\<rparr>;
     Some (sendLineResult (Bytes (trb t1)) (Some err) t1)
   }"

definition esc_ok :: "loop \<Rightarrow> bool" where
  \<comment> \<open>The accumulation buffer is within its 16 bytes, and has room while a sequence is
      being accumulated.\<close>
  "esc_ok st = (escCap st = 16 \<and> length (escBuf st) \<le> 16
                \<and> (escaped st \<longrightarrow> length (escBuf st) < 16))"

subsection \<open>The vocabulary of the properties\<close>

definition geometry_ok :: "FormatModel \<Rightarrow> RuneBuffer \<Rightarrow> bool" where
  \<comment> \<open>The conditions under which the redraw returns: the screen width is not
      negative, and is positive under a prompt of negative width (\<^verbatim>\<open>clean\<close> would
      repeat a string a negative number of times); the width of the prompt is not a
      positive multiple of the screen width plus one (the first loop of
      \<^verbatim>\<open>getBackspaceSequence\<close> would come back to \<open>0\<close> for ever); and \<^verbatim>\<open>SplitByLine\<close>
      returns at least one line.\<close>
  "geometry_ok M rb =
     (0 \<le> screenWidth rb
      \<and> (0 < screenWidth rb \<or> 0 \<le> promptWidth rb)
      \<and> (promptWidth rb \<le> 0 \<or> \<not> (screenWidth rb + 1) dvd promptWidth rb)
      \<and> (\<forall>s. SplitByLine M (promptWidth rb) (screenWidth rb) s \<noteq> []))"

definition redraw_ok :: "FormatModel \<Rightarrow> RuneBuffer \<Rightarrow> bool" where
  \<comment> \<open>Only an interactive buffer redraws: the conditions are asked of no other.\<close>
  "redraw_ok M rb = (interactive rb \<longrightarrow> geometry_ok M rb)"

definition cursor_ok :: "RuneBuffer \<Rightarrow> bool" where
  \<comment> \<open>The invariant of the data model: \<open>0 \<le> cursor \<le> len(text)\<close>.\<close>
  "cursor_ok rb = (0 \<le> idx rb \<and> idx rb \<le> int (length (buf rb)))"


definition word_start :: "(rune \<Rightarrow> bool) \<Rightarrow> rune list \<Rightarrow> int \<Rightarrow> bool" where
  \<comment> \<open>A word boundary: a non-break codepoint right after a break codepoint.\<close>
  "word_start wb b i =
     (0 < i \<and> i < int (length b) \<and> \<not> wb (b ! nat i) \<and> wb (b ! nat (i - 1)))"

definition overtype :: "rune list \<Rightarrow> int \<Rightarrow> rune list \<Rightarrow> rune list" where
  \<comment> \<open>Overtyping as the specification words it: the content is replaced length for
      length from the cursor, and the buffer grows only by the excess.\<close>
  "overtype b i s = take (nat i) b @ s @ drop (nat i + length s) b"



definition no_event :: "Extern \<Rightarrow> byte list \<Rightarrow> Terminal \<Rightarrow> bool" where
  \<comment> \<open>The accumulated bytes produce no escape event: nothing is decoded, or the handler
      returns false.\<close>
  "no_event X eb t =
     (case decodeEscapeKeyPair X eb of
        None \<Rightarrow> True
      | Some kp \<Rightarrow> map_option fst (escape X kp t) = Some False)"

subsection \<open>Concrete instances for the examples\<close>

definition ascii_model :: FormatModel where
  \<comment> \<open>A format model for the examples: letters and digits make up words, every
      codepoint is one column wide, nothing is filtered or wrapped, a tab is four
      columns.\<close>
  "ascii_model =
     \<lparr>IsWordBreak = (\<lambda>c. \<not> ((0x61 \<le> c \<and> c \<le> 0x7A) \<or> (0x41 \<le> c \<and> c \<le> 0x5A)
                               \<or> (0x30 \<le> c \<and> c \<le> 0x39))),
      WidthAll = (\<lambda>s. int (length s)),
      ColorFilter = (\<lambda>s. s),
      SplitByLine = (\<lambda>pw sw s. [string_of_runes s]),
      TabWidth = 4\<rparr>"

definition buffer_of :: "rune list \<Rightarrow> int \<Rightarrow> RuneBuffer" where
  \<comment> \<open>An interactive buffer, 80 columns wide, with the given text and cursor, no prompt,
      no mask, no backup and an empty kill slot.\<close>
  "buffer_of b i =
     \<lparr>prompt = [], promptWidth = 0, mask = 0, interactive = True, screenWidth = 80,
      idx = i, buf = b, backup = None, hadClean = False, lastKill = []\<rparr>"

definition example_decode :: "byte list \<Rightarrow> escapeKeyPair option" where
  \<comment> \<open>A decoder for the examples: nothing after a bare ESC; after \<open>ESC [\<close> the event is
      incomplete (type 0) until a byte that is not a digit ends it.\<close>
  "example_decode eb =
     (case eb of
        [] \<Rightarrow> None
      | c # rest \<Rightarrow>
          Some \<lparr>Char = c,
                Type = (if c = 0x5B \<and> rest \<noteq> [] \<and> \<not> (0x30 \<le> last rest \<and> last rest \<le> 0x39)
                        then last rest else 0x00),
                Attribute = - 1, Attribute2 = - 1, Remainder = []\<rparr>)"

definition example_extern :: Extern where
  "example_extern =
     \<lparr>model = ascii_model, decodeEscapeKeyPair = example_decode,
      encodeControlChars = (\<lambda>p. p), growslice = (\<lambda>old need. 2 * need)\<rparr>"

definition terminal_of :: "RuneBuffer \<Rightarrow> Terminal" where
  \<comment> \<open>A terminal around the given buffer, in its initial mode, with no result pending.\<close>
  "terminal_of rb =
     \<lparr>trb = rb, ioInsMode = False, lineResultCh = [], ioErr = None, written = []\<rparr>"

definition accumulating :: "byte list \<Rightarrow> loop" where
  \<comment> \<open>The loop in escape mode over an empty buffer, with the given bytes accumulated.\<close>
  "accumulating eb =
     \<lparr>terminal = terminal_of (buffer_of [] 0), escaped = True, escBuf = eb, escCap = 16\<rparr>"

section \<open>Properties\<close>

declare scanPrev.simps [simp del] scanNext.simps [simp del] scanEnd.simps [simp del]
  findBack.simps [simp del] findFwd.simps [simp del] skipBreaks.simps [simp del]
  backLoop.simps [simp del] digits.simps [simp del] feed.simps [simp del]
  DecodeRune.simps [simp del] runes_of_string.simps [simp del]


subsection \<open>Slices within bounds, and the redraw wrapper\<close>

lemma slice_to_ok: "0 \<le> i \<Longrightarrow> i \<le> int (length s) \<Longrightarrow> slice_to s i = Some (take (nat i) s)"
  by (simp add: slice_to_def slice_def)

lemma slice_ok:
  "0 \<le> lo \<Longrightarrow> lo \<le> hi \<Longrightarrow> hi \<le> int (length s) \<Longrightarrow>
   slice s lo hi = Some (take (nat (hi - lo)) (drop (nat lo) s))"
  by (simp add: slice_def)

lemma slice_from_ok: "0 \<le> i \<Longrightarrow> i \<le> int (length s) \<Longrightarrow> slice_from s i = Some (drop (nat i) s)"
  by (simp add: slice_from_def slice_def)

lemma at_ok: "0 \<le> i \<Longrightarrow> i < int (length s) \<Longrightarrow> at s i = Some (s ! nat i)"
  by (simp add: at_def)

text \<open>
  The first loop of \<^verbatim>\<open>getBackspaceSequence\<close> ends when its counter never comes back to
  \<open>0\<close>, and then the redraw returns.
\<close>

lemma sepLoop_returns_from:
  "0 \<le> sw \<Longrightarrow> 0 < i \<Longrightarrow> \<exists>s. sepLoop pw sw sz i sep = Some s"
proof (induction "nat (sz - i)" arbitrary: i sep rule: less_induct)
  case less
  show ?case
  proof (cases "i < sz")
    case False
    then show ?thesis by (subst sepLoop.simps) simp
  next
    case True
    have step: "sepLoop pw sw sz i sep = sepLoop pw sw sz (i + sw + 1) ((i + sw) # sep)"
      using True less.prems by (subst sepLoop.simps) (simp add: Let_def)
    have "nat (sz - (i + sw + 1)) < nat (sz - i)" using True less.prems by simp
    moreover have "0 < i + sw + 1" using less.prems by simp
    ultimately show ?thesis unfolding step using less.hyps less.prems(1) by blast
  qed
qed

lemma sepLoop_returns_off:
  "0 \<le> sw \<Longrightarrow> \<not> (sw + 1) dvd pw \<Longrightarrow> (sw + 1) dvd (i + pw) \<Longrightarrow>
   \<exists>s. sepLoop pw sw sz i sep = Some s"
proof (induction "nat (sz - i)" arbitrary: i sep rule: less_induct)
  case less
  show ?case
  proof (cases "i < sz")
    case False
    then show ?thesis by (subst sepLoop.simps) simp
  next
    case True
    from less.prems(2,3) have nz: "i \<noteq> 0" by auto
    have step: "sepLoop pw sw sz i sep = sepLoop pw sw sz (i + sw + 1) ((i + sw) # sep)"
      using True nz by (subst sepLoop.simps) (simp add: Let_def)
    have "nat (sz - (i + sw + 1)) < nat (sz - i)" using True less.prems(1) by simp
    moreover have "(sw + 1) dvd (i + sw + 1 + pw)"
    proof -
      have e: "i + sw + 1 + pw = (i + pw) + (sw + 1)" by simp
      from less.prems(3) have "(sw + 1) dvd ((i + pw) + (sw + 1))" by (rule dvd_add) simp
      then show ?thesis unfolding e .
    qed
    ultimately show ?thesis unfolding step using less.hyps less.prems(1,2) by blast
  qed
qed

lemma getBackspaceSequence_returns:
  assumes "0 \<le> screenWidth rb"
    and "promptWidth rb \<le> 0 \<or> \<not> (screenWidth rb + 1) dvd promptWidth rb"
  shows "\<exists>bs. getBackspaceSequence M rb = Some bs"
proof -
  let ?sz = "WidthAll M (buf rb)"
  let ?pw = "promptWidth rb"
  let ?sw = "screenWidth rb"
  have "\<exists>s. sepLoop ?pw ?sw ?sz 0 [] = Some s"
  proof (cases "0 < ?sz")
    case False
    then show ?thesis by (subst sepLoop.simps) simp
  next
    case True
    have step: "sepLoop ?pw ?sw ?sz 0 [] = sepLoop ?pw ?sw ?sz (0 - ?pw + ?sw + 1) [0 - ?pw + ?sw]"
      using True by (subst sepLoop.simps) (simp add: Let_def)
    show ?thesis
    proof (cases "?pw \<le> 0")
      case True
      then have "0 < 0 - ?pw + ?sw + 1" using assms(1) by simp
      from sepLoop_returns_from[OF assms(1) this] show ?thesis unfolding step .
    next
      case False
      with assms(2) have nd: "\<not> (?sw + 1) dvd ?pw" by simp
      have "(?sw + 1) dvd (0 - ?pw + ?sw + 1 + ?pw)" by simp
      from sepLoop_returns_off[OF assms(1) nd this] show ?thesis unfolding step .
    qed
  qed
  then show ?thesis by (auto simp: getBackspaceSequence_def)
qed

lemma clean_eq:
  "cursor_ok rb \<Longrightarrow> interactive rb \<Longrightarrow>
   clean rb = (if \<not> hadClean rb \<and> screenWidth rb \<le> 0 \<and> promptWidth rb + int (length (buf rb)) < 0
               then None else Some (rb\<lparr>hadClean := True\<rparr>))"
proof -
  assume ok: "cursor_ok rb" and inter: "interactive rb"
  have same: "hadClean rb \<Longrightarrow> rb\<lparr>hadClean := True\<rparr> = rb"
    by simp
  from ok have "slice_to (buf rb) (idx rb) = Some (take (nat (idx rb)) (buf rb))"
    by (simp add: cursor_ok_def slice_to_ok)
  with inter same show ?thesis
    by (cases "hadClean rb") (simp_all add: clean_def)
qed

lemma outputPrint_returns:
  assumes "geometry_ok M rb"
  shows "\<exists>out. outputPrint M rb = Some out"
proof -
  from assms getBackspaceSequence_returns[of rb M] obtain bs where
    bs: "getBackspaceSequence M rb = Some bs"
    by (auto simp: geometry_ok_def)
  from assms have "SplitByLine M (promptWidth rb) (screenWidth rb) (buf rb) \<noteq> []"
    by (simp add: geometry_ok_def)
  then have "\<exists>edge. isInLineEdge M rb = Some edge"
    by (simp add: isInLineEdge_def Let_def at_def)
  then obtain edge where edge: "isInLineEdge M rb = Some edge" by blast
  have l: "length (buf rb) > 0 \<Longrightarrow> at (buf rb) (int (length (buf rb)) - 1) = Some (last (buf rb))"
    by (cases "buf rb" rule: rev_cases) (simp_all add: at_def)
  show ?thesis
    by (cases "mask rb \<noteq> 0 \<and> length (buf rb) > 0")
       (auto simp: outputPrint_def Let_def bs edge l)
qed

lemma print_eq:
  "geometry_ok M rb \<Longrightarrow> print M rb = Some (rb\<lparr>hadClean := False\<rparr>)"
proof -
  assume "geometry_ok M rb"
  then have "geometry_ok M (rb\<lparr>hadClean := False\<rparr>)" by (simp add: geometry_ok_def)
  from outputPrint_returns[OF this] show ?thesis by (auto simp: print_def Let_def)
qed

lemma Refresh_eq:
  "cursor_ok rb \<Longrightarrow>
   Refresh M f rb =
     (if \<not> interactive rb then f rb
      else if \<not> hadClean rb \<and> screenWidth rb \<le> 0 \<and> promptWidth rb + int (length (buf rb)) < 0
      then None
      else (case f (rb\<lparr>hadClean := True\<rparr>) of
              None \<Rightarrow> None
            | Some (r, rb2) \<Rightarrow> map_option (Pair r) (print M rb2)))"
  by (auto simp: Refresh_def clean_eq split: option.splits Option.bind_splits)

lemmas redraw = Refresh_eq print_eq geometry_ok_def redraw_ok_def


lemma scanPrev_spec:
  "i < int (length b) \<Longrightarrow>
   \<exists>r. scanPrev wb b i = Some r \<and>
     (case r of
        Some k \<Rightarrow> k \<le> i \<and> word_start wb b k \<and> (\<forall>j. k < j \<and> j \<le> i \<longrightarrow> \<not> word_start wb b j)
      | None \<Rightarrow> (\<forall>j. j \<le> i \<longrightarrow> \<not> word_start wb b j))"
proof (induction wb b i rule: scanPrev.induct)
  case (1 wb b i)
  show ?case
  proof (cases "0 < i")
    case False
    then show ?thesis by (subst scanPrev.simps) (simp add: word_start_def)
  next
    case pos: True
    with "1.prems" have a1: "at b i = Some (b ! nat i)" and a2: "at b (i - 1) = Some (b ! nat (i - 1))"
      by (simp_all add: at_ok)
    show ?thesis
    proof (cases "word_start wb b i")
      case True
      with pos a1 a2 show ?thesis
        by (subst scanPrev.simps) (auto simp: word_start_def)
    next
      case miss: False
      have hit: "(if \<not> wb (b ! nat i) then do { p \<leftarrow> at b (i - 1); Some (wb p) } else Some False) = Some False"
        using miss pos "1.prems" a2 by (auto simp: word_start_def)
      have step: "scanPrev wb b i = scanPrev wb b (i - 1)"
        using pos a1 hit by (subst scanPrev.simps) simp
      have "i - 1 < int (length b)" using "1.prems" by simp
      from "1.IH"[OF pos a1 hit _ this]
      obtain r where r: "scanPrev wb b (i - 1) = Some r"
        and rs: "(case r of
        Some k \<Rightarrow> k \<le> i - 1 \<and> word_start wb b k \<and> (\<forall>j. k < j \<and> j \<le> i - 1 \<longrightarrow> \<not> word_start wb b j)
      | None \<Rightarrow> (\<forall>j. j \<le> i - 1 \<longrightarrow> \<not> word_start wb b j))"
        by auto
      have top: "\<And>j. i - 1 < j \<Longrightarrow> j \<le> i \<Longrightarrow> \<not> word_start wb b j"
      proof -
        fix j assume "i - 1 < j" "j \<le> i"
        then have "j = i" by simp
        with miss show "\<not> word_start wb b j" by simp
      qed
      show ?thesis
      proof (cases r)
        case None
        have "\<And>j. j \<le> i \<Longrightarrow> \<not> word_start wb b j"
        proof -
          fix j assume "j \<le> i"
          then consider "j \<le> i - 1" | "i - 1 < j \<and> j \<le> i" by linarith
          then show "\<not> word_start wb b j" using rs None top by cases auto
        qed
        with None show ?thesis unfolding step r by simp
      next
        case (Some k)
        have "\<And>j. k < j \<Longrightarrow> j \<le> i \<Longrightarrow> \<not> word_start wb b j"
        proof -
          fix j assume "k < j" "j \<le> i"
          then consider "j \<le> i - 1" | "i - 1 < j \<and> j \<le> i" by linarith
          then show "\<not> word_start wb b j" using rs Some top \<open>k < j\<close> by cases auto
        qed
        with Some rs show ?thesis unfolding step r by simp
      qed
    qed
  qed
qed






subsection \<open>Every operation keeps the cursor within the text\<close>

lemmas sl = slice_to_ok slice_from_ok slice_ok at_ok











lemma Kill_ok:
  "cursor_ok rb \<Longrightarrow> redraw_ok M rb \<Longrightarrow> \<exists>r rb'. Kill M rb = Some (r, rb') \<and> cursor_ok rb' \<and> backup rb' = backup rb \<and> redraw_ok M rb'"
  by (auto simp: Kill_def redraw cursor_ok_def sl pushKill_def Let_def)
















subsection \<open>What an operation that returns has done\<close>

text \<open>
  The lemmas above ask that the redraw returns. What an operation has done to the
  cursor when it returns does not depend on that.
\<close>

lemma print_returned: "print M rb2 = Some rb3 \<Longrightarrow> rb3 = rb2\<lparr>hadClean := False\<rparr>"
  by (auto simp: print_def Let_def split: Option.bind_splits)

lemma Refresh_returns_iff:
  "cursor_ok rb \<Longrightarrow>
   Refresh M f rb = Some (r, rb') \<longleftrightarrow>
     (if \<not> interactive rb then f rb = Some (r, rb')
      else \<not> (\<not> hadClean rb \<and> screenWidth rb \<le> 0 \<and> promptWidth rb + int (length (buf rb)) < 0)
           \<and> (\<exists>rb2. f (rb\<lparr>hadClean := True\<rparr>) = Some (r, rb2) \<and> print M rb2 = Some rb'))"
  by (auto simp: Refresh_eq split: option.splits)

lemmas returned = Refresh_returns_iff cursor_ok_def sl

























subsection \<open>Evaluating the examples\<close>

lemma ascii_model_lines: "SplitByLine ascii_model pw sw s \<noteq> []"
  by (simp add: ascii_model_def)

lemma ascii_break:
  "IsWordBreak ascii_model c
     = (\<not> ((0x61 \<le> c \<and> c \<le> 0x7A) \<or> (0x41 \<le> c \<and> c \<le> 0x5A) \<or> (0x30 \<le> c \<and> c \<le> 0x39)))"
  by (simp add: ascii_model_def)

lemmas concrete = redraw cursor_ok_def buffer_of_def sl ascii_model_lines

subsection \<open>Writing at the cursor\<close>




text \<open>Overtyping is what \<^verbatim>\<open>InsertRunes\<close> does.\<close>

lemma InsertRunes_overtypes:
  assumes "cursor_ok rb" and "redraw_ok M rb"
  shows "\<exists>rb'. InsertRunes M s rb = Some ((), rb')
     \<and> buf rb' = overtype (buf rb) (idx rb) s
     \<and> idx rb' = idx rb + int (length s)"
  using assms
  by (auto simp: InsertRunes_def redraw cursor_ok_def sl copy_def Let_def overtype_def min_def
      add.commute)

subsection \<open>The cursor invariant over sequences of editing operations\<close>




subsection \<open>Kill and yank\<close>

text \<open>
  Claim C4. From every buffer whose cursor lies within its text and strictly before
  its end, whenever \<^verbatim>\<open>Kill\<close> and then \<^verbatim>\<open>Yank\<close> return, both have succeeded, the text is
  as it was before the kill, and the cursor is at the kill point plus the length of
  the killed span, which is the end of the buffer. Both return under \<open>redraw_ok\<close>,
  the conditions on the geometry under which the redraw of the buffer returns.
\<close>

theorem kill_yank_roundtrip:
  assumes "cursor_ok rb" and "idx rb < int (length (buf rb))"
  shows "(\<forall>k y rb1 rb2. Kill M rb = Some (k, rb1) \<and> Yank M rb1 = Some (y, rb2) \<longrightarrow>
            k \<and> y
          \<and> lastKill rb1 = drop (nat (idx rb)) (buf rb)
          \<and> buf rb1 = take (nat (idx rb)) (buf rb) \<and> idx rb1 = idx rb
          \<and> buf rb2 = buf rb
          \<and> idx rb2 = idx rb + int (length (lastKill rb1))
          \<and> idx rb2 = int (length (buf rb)))
       \<and> (redraw_ok M rb \<longrightarrow>
            (\<exists>rb1 rb2. Kill M rb = Some (True, rb1) \<and> Yank M rb1 = Some (True, rb2)))"
proof (intro conjI allI impI)
  fix k y rb1 rb2
  assume a: "Kill M rb = Some (k, rb1) \<and> Yank M rb1 = Some (y, rb2)"
  with assms have k: "k \<and> lastKill rb1 = drop (nat (idx rb)) (buf rb)
      \<and> buf rb1 = take (nat (idx rb)) (buf rb) \<and> idx rb1 = idx rb"
    by (auto simp: Kill_def returned pushKill_def Let_def Copy_def split: if_splits dest!: print_returned)
  with assms have ok1: "cursor_ok rb1" by (simp add: cursor_ok_def)
  from assms k have ne: "length (lastKill rb1) \<noteq> 0" by (simp add: cursor_ok_def)
  from a ok1 ne have y: "y \<and> buf rb2 = take (nat (idx rb1)) (buf rb1) @ lastKill rb1 @ drop (nat (idx rb1)) (buf rb1)
      \<and> idx rb2 = idx rb1 + int (length (lastKill rb1))"
    by (auto simp: Yank_def returned split: if_splits dest!: print_returned)
  from k show "k" "lastKill rb1 = drop (nat (idx rb)) (buf rb)"
    "buf rb1 = take (nat (idx rb)) (buf rb)" "idx rb1 = idx rb" by simp_all
  from y show "y" by simp
  from y k assms show "buf rb2 = buf rb" by (simp add: cursor_ok_def)
  from y k show "idx rb2 = idx rb + int (length (lastKill rb1))" by simp
  from y k assms show "idx rb2 = int (length (buf rb))" by (simp add: cursor_ok_def)
next
  assume rd: "redraw_ok M rb"
  from assms rd have "\<exists>rb1. Kill M rb = Some (True, rb1)
      \<and> lastKill rb1 = drop (nat (idx rb)) (buf rb)"
    by (auto simp: Kill_def redraw cursor_ok_def sl pushKill_def Let_def Copy_def)
  then obtain rb1 where k1: "Kill M rb = Some (True, rb1)"
    and lk: "lastKill rb1 = drop (nat (idx rb)) (buf rb)"
    by blast
  from Kill_ok[OF assms(1) rd] k1 have ok1: "cursor_ok rb1" and rd1: "redraw_ok M rb1" by simp_all
  from assms lk have ne: "length (lastKill rb1) \<noteq> 0" by (simp add: cursor_ok_def)
  from ok1 ne rd1 have "\<exists>rb2. Yank M rb1 = Some (True, rb2)"
    by (auto simp: Yank_def redraw cursor_ok_def sl)
  with k1 show "\<exists>rb1 rb2. Kill M rb = Some (True, rb1) \<and> Yank M rb1 = Some (True, rb2)" by blast
qed

text \<open>The theorem at the text \<open>abc\<close> with the cursor after \<open>a\<close>.\<close>

theorem kill_yank_roundtrip_witness:
  "cursor_ok (buffer_of [0x61, 0x62, 0x63] 1) \<and> idx (buffer_of [0x61, 0x62, 0x63] 1) < 3
   \<and> redraw_ok ascii_model (buffer_of [0x61, 0x62, 0x63] 1)
   \<and> (\<exists>rb1 rb2. Kill ascii_model (buffer_of [0x61, 0x62, 0x63] 1) = Some (True, rb1)
        \<and> Yank ascii_model rb1 = Some (True, rb2)
        \<and> lastKill rb1 = [0x62, 0x63] \<and> buf rb1 = [0x61]
        \<and> buf rb2 = [0x61, 0x62, 0x63] \<and> idx rb2 = 3)"
proof -
  have ok: "cursor_ok (buffer_of [0x61, 0x62, 0x63] 1)"
    and lt: "idx (buffer_of [0x61, 0x62, 0x63] 1) < int (length (buf (buffer_of [0x61, 0x62, 0x63] 1)))"
    and rd: "redraw_ok ascii_model (buffer_of [0x61, 0x62, 0x63] 1)"
    by (simp_all add: concrete)
  from kill_yank_roundtrip[OF ok lt, of ascii_model] rd
  obtain rb1 rb2 where r: "Kill ascii_model (buffer_of [0x61, 0x62, 0x63] 1) = Some (True, rb1)"
    "Yank ascii_model rb1 = Some (True, rb2)"
    by blast
  from kill_yank_roundtrip[OF ok lt, of ascii_model] r
  have "lastKill rb1 = [0x62, 0x63] \<and> buf rb1 = [0x61] \<and> buf rb2 = [0x61, 0x62, 0x63] \<and> idx rb2 = 3"
    by (auto simp: buffer_of_def)
  with ok rd r show ?thesis by (auto simp: buffer_of_def)
qed

subsection \<open>Backspace and the kill slot\<close>




subsection \<open>Killing the word before the cursor\<close>

text \<open>
  Where a word boundary lies before the cursor, \<^verbatim>\<open>KillWordFront\<close> removes the span from
  the nearest one up to the cursor, keeps the rest and stores the span in the kill
  slot. Where none does, it empties the whole buffer and leaves the kill slot alone.
\<close>

lemma KillWordFront_at_boundary:
  assumes "cursor_ok rb" and "word_start (IsWordBreak M) (buf rb) k" and "k < idx rb"
    and "\<forall>j. k < j \<and> j < idx rb \<longrightarrow> \<not> word_start (IsWordBreak M) (buf rb) j"
    and rd: "redraw_ok M rb"
  shows "\<exists>rb'. KillWordFront M rb = Some (True, rb')
     \<and> buf rb' = take (nat k) (buf rb) @ drop (nat (idx rb)) (buf rb)
     \<and> idx rb' = k
     \<and> lastKill rb' = take (nat (idx rb - k)) (drop (nat k) (buf rb))"
proof -
  have "idx rb - 1 < int (length (buf rb))" using assms(1) by (simp add: cursor_ok_def)
  from scanPrev_spec[OF this, of "IsWordBreak M"] obtain q where
    q: "scanPrev (IsWordBreak M) (buf rb) (idx rb - 1) = Some q" and
    qs: "case q of
        Some k' \<Rightarrow> k' \<le> idx rb - 1 \<and> word_start (IsWordBreak M) (buf rb) k'
                 \<and> (\<forall>j. k' < j \<and> j \<le> idx rb - 1 \<longrightarrow> \<not> word_start (IsWordBreak M) (buf rb) j)
      | None \<Rightarrow> (\<forall>j. j \<le> idx rb - 1 \<longrightarrow> \<not> word_start (IsWordBreak M) (buf rb) j)"
    by blast
  have "q = Some k"
  proof (cases q)
    case None
    with qs assms(2,3) show ?thesis by auto
  next
    case (Some k')
    with qs have k': "k' \<le> idx rb - 1" "word_start (IsWordBreak M) (buf rb) k'"
      and least: "\<forall>j. k' < j \<and> j \<le> idx rb - 1 \<longrightarrow> \<not> word_start (IsWordBreak M) (buf rb) j"
      by simp_all
    have "\<not> k' < k" using least assms(2,3) by auto
    moreover have "\<not> k < k'" using assms(4) k' by auto
    ultimately show ?thesis using Some by simp
  qed
  moreover from assms(2) have "0 < k" by (simp add: word_start_def)
  ultimately show ?thesis using q assms(1,3) rd
    by (auto simp: KillWordFront_def redraw cursor_ok_def sl pushKill_def Let_def Copy_def)
qed

lemma KillWordFront_no_boundary:
  assumes "cursor_ok rb" and "0 < idx rb"
    and "\<forall>j. j < idx rb \<longrightarrow> \<not> word_start (IsWordBreak M) (buf rb) j"
    and rd: "redraw_ok M rb"
  shows "\<exists>rb'. KillWordFront M rb = Some (True, rb')
     \<and> buf rb' = [] \<and> idx rb' = 0 \<and> lastKill rb' = lastKill rb"
proof -
  have "idx rb - 1 < int (length (buf rb))" using assms(1) by (simp add: cursor_ok_def)
  from scanPrev_spec[OF this, of "IsWordBreak M"] obtain q where
    q: "scanPrev (IsWordBreak M) (buf rb) (idx rb - 1) = Some q" and
    qs: "\<And>k'. q = Some k' \<Longrightarrow> k' \<le> idx rb - 1 \<and> word_start (IsWordBreak M) (buf rb) k'"
    by (auto split: option.splits)
  have "q = None"
  proof (cases q)
    case (Some k')
    with qs[OF Some] assms(3) show ?thesis by auto
  qed simp
  with q assms(1,2) rd show ?thesis
    by (auto simp: KillWordFront_def redraw cursor_ok_def)
qed

text \<open>
  Claim C5 fails where no word boundary lies before the cursor. With the text
  \<open>abc\<close>, the cursor after \<open>a\<close> and \<open>x\<close> in the kill slot, the claim asks for the text
  \<open>bc\<close> and the kill slot \<open>a\<close>: the code leaves an empty buffer and \<open>x\<close> in the slot.
  With the text \<open>ab cd\<close> and the cursor after \<open>b\<close>, the code also drops \<open> cd\<close>, which
  lies after the cursor.
\<close>

theorem KillWordFront_without_boundary:
  "KillWordFront ascii_model ((buffer_of [0x61, 0x62, 0x63] 1)\<lparr>lastKill := [0x78]\<rparr>)
     = Some (True, (buffer_of [] 0)\<lparr>lastKill := [0x78]\<rparr>)
   \<and> KillWordFront ascii_model (buffer_of [0x61, 0x62, 0x20, 0x63, 0x64] 2)
     = Some (True, buffer_of [] 0)"
proof -
  have s1: "scanPrev (IsWordBreak ascii_model) [0x61, 0x62, 0x63] 0 = Some None"
    by (subst scanPrev.simps) simp
  have s2: "scanPrev (IsWordBreak ascii_model) [0x61, 0x62, 0x20, 0x63, 0x64] 1 = Some None"
    by (subst scanPrev.simps, simp add: at_def ascii_break, subst scanPrev.simps, simp)
  show ?thesis
    by (simp add: KillWordFront_def concrete s1 s2)
qed

subsection \<open>Word motion\<close>




subsection \<open>The screen width\<close>









subsection \<open>Rendering under a mask\<close>






subsection \<open>The escape accumulation buffer\<close>

lemmas char_defs = CharEscape_def CharInterrupt_def CharDelete_def CharLineStart_def
        CharBackward_def CharLineEnd_def CharForward_def CharBell_def CharBackspace_def
        CharBackspaceEx_def CharTab_def CharFeed_def CharReturn_def CharKill_def CharClear_def
        CharNext_def CharPrev_def CharBckSearch_def CharFwdSearch_def CharTranspose_def
        CharKillFront_def CharKillWordFront_def CharYank_def

lemma unhandled_esc_ok:
  assumes "unhandled X n st = Some (k, st', e)"
    and "escCap st = 16" and "length (escBuf st) \<le> 16"
  shows "esc_ok st'"
  using assms
  by (auto simp: unhandled_def esc_ok_def split: if_splits Option.bind_splits prod.splits)

lemma iteration_esc_ok:
  assumes "esc_ok st" and "iteration X st b bs = Some (n, st', e)"
  shows "esc_ok st'"
proof -
  obtain p m where pm: "(if b \<ge> 0x80 \<and> \<not> escaped st
                   then (let (r, k) = DecodeRune (b # bs) in (EncodeRune r, k))
                   else ([b], 1)) = (p, m)"
    by (cases "(if b \<ge> 0x80 \<and> \<not> escaped st
                   then (let (r, k) = DecodeRune (b # bs) in (EncodeRune r, k))
                   else ([b], 1))") blast
  have p1: "escaped st \<Longrightarrow> p = [b]" using pm by simp
  show ?thesis
  proof (cases "b = CharEscape \<or> escaped st")
    case False
    with assms pm show ?thesis
      by (auto simp: iteration_def esc_ok_def split: if_splits Option.bind_splits)
  next
    case True
    define st1 where "st1 = (if \<not> escaped st then st\<lparr>escaped := True, escBuf := []\<rparr> else append_esc X p st)"
    have cap1: "escCap st1 = 16" and len1: "length (escBuf st1) \<le> 16"
      using assms(1) p1 by (auto simp: st1_def esc_ok_def append_esc_def)
    show ?thesis
    proof (cases "decodeEscapeKeyPair X (escBuf st1)")
      case None
      with True assms(2) pm have "unhandled X m st1 = Some (n, st', e)"
        unfolding iteration_def pm st1_def by (simp add: Let_def)
      from unhandled_esc_ok[OF this cap1 len1] show ?thesis .
    next
      case (Some kp)
      with True assms(2) pm obtain handled t1 where
        h: "escape X kp (terminal st1) = Some (handled, t1)" and
        r: "(if handled then
             (if length (Remainder kp) \<le> 0 then Some (m, st1\<lparr>terminal := t1, escaped := False\<rparr>, None)
              else do {
                (t2, e) \<leftarrow> dispatch X (Remainder kp) t1;
                Some (m, st1\<lparr>terminal := t1, escaped := False, terminal := t2\<rparr>, e)
              })
           else unhandled X m (st1\<lparr>terminal := t1\<rparr>)) = Some (n, st', e)"
        unfolding iteration_def pm st1_def
        by (auto simp: Let_def split: Option.bind_splits)
      show ?thesis
      proof (cases handled)
        case True
        with r cap1 len1 show ?thesis
          by (auto simp: esc_ok_def split: if_splits Option.bind_splits)
      next
        case False
        with r have "unhandled X m (st1\<lparr>terminal := t1\<rparr>) = Some (n, st', e)" by simp
        from unhandled_esc_ok[OF this] cap1 len1 show ?thesis by simp
      qed
    qed
  qed
qed

lemma feed_esc_ok:
  "esc_ok st \<Longrightarrow> feed X st inp = Some (st', e) \<Longrightarrow> esc_ok st'"
proof (induction X st inp rule: feed.induct)
  case (1 X st)
  then show ?case by (simp add: feed.simps)
next
  case (2 X st b bs)
  from "2.prems"(2) obtain n st1 e1 where it: "iteration X st b bs = Some (n, st1, e1)"
    by (auto simp: feed.simps split: option.splits)
  from iteration_esc_ok[OF "2.prems"(1) it] have ok1: "esc_ok st1" .
  show ?case
  proof (cases e1)
    case None
    with it "2.prems"(2) have "feed X st1 (drop (n - 1) bs) = Some (st', e)"
      by (simp add: feed.simps)
    from "2.IH"[OF it _ _ None ok1 this] show ?thesis by simp
  next
    case (Some e2)
    with it "2.prems"(2) ok1 show ?thesis by (simp add: feed.simps)
  qed
qed

lemma interrupted_esc_ok: "esc_ok st \<Longrightarrow> esc_ok (interrupted st)"
  by (simp add: esc_ok_def interrupted_def)


lemma escape_refused:
  "escape X kp t = Some (False, t1) \<Longrightarrow> t1 = t"
  by (auto simp: escape_def escapeEx_def split: if_splits Option.bind_splits)

lemma CharEscape_literal:
  "dispatch X (CharEscape # eb) t = map_option (\<lambda>t'. (t', None)) (literal X (CharEscape # eb) t)"
  by (cases "literal X (CharEscape # eb) t")
     (simp_all add: dispatch_def at_def CharEscape_def CharInterrupt_def CharDelete_def CharLineStart_def
        CharBackward_def CharLineEnd_def CharForward_def CharBell_def CharBackspace_def
        CharBackspaceEx_def CharTab_def CharFeed_def CharReturn_def CharKill_def CharClear_def
        CharNext_def CharPrev_def CharBckSearch_def CharFwdSearch_def CharTranspose_def
        CharKillFront_def CharKillWordFront_def CharYank_def)

lemma escaped_pass:
  assumes "escaped st" and "no_event X (escBuf st @ [b]) (terminal st)" and "escCap st = 16"
    and "length (escBuf st) < 16"
  shows "iteration X st b bs = unhandled X 1 (st\<lparr>escBuf := escBuf st @ [b]\<rparr>)"
proof -
  let ?st1 = "st\<lparr>escBuf := escBuf st @ [b]\<rparr>"
  have st1: "append_esc X [b] st = ?st1" using assms(3,4) by (simp add: append_esc_def)
  show ?thesis
  proof (cases "decodeEscapeKeyPair X (escBuf st @ [b])")
    case None
    with assms(1) st1 show ?thesis by (simp add: iteration_def)
  next
    case (Some kp)
    with assms(2) obtain t1 where e: "escape X kp (terminal st) = Some (False, t1)"
      by (auto simp: no_event_def)
    from escape_refused[OF e] have "t1 = terminal st" .
    with Some e assms(1) st1 show ?thesis by (simp add: iteration_def)
  qed
qed

text \<open>
  Claim C8. The accumulation buffer starts empty with capacity 16; every pass of the
  loop, on any byte and whatever the decoder answers, leaves it with at most 16 bytes
  in the same capacity, and with room for one more while the loop is in escape mode;
  so does the loop over any input. In escape mode, while the bytes produce no
  escape event, a pass appends the byte read and goes on accumulating as long as fewer
  than 16 bytes are held; the pass that brings the buffer to 16 bytes leaves escape
  mode and handles \<^verbatim>\<open>ESC\<close> followed by the accumulated bytes as ordinary input.
\<close>

theorem escape_buffer_bounded:
  "esc_ok (new_loop t)
   \<and> (esc_ok st \<and> iteration X st b bs = Some (n, st', e) \<longrightarrow> esc_ok st')
   \<and> (feed X (new_loop t) inp = Some (st', e) \<longrightarrow> length (escBuf st') \<le> 16 \<and> escCap st' = 16)
   \<and> (esc_ok st \<and> escaped st \<and> no_event X (escBuf st @ [b]) (terminal st) \<longrightarrow>
        (length (escBuf st) < 15 \<longrightarrow>
           iteration X st b bs = Some (1, st\<lparr>escBuf := escBuf st @ [b]\<rparr>, None))
      \<and> (length (escBuf st) = 15 \<longrightarrow>
           iteration X st b bs =
             map_option (\<lambda>t'. (1, st\<lparr>escBuf := escBuf st @ [b], escaped := False, terminal := t'\<rparr>, None))
               (literal X (CharEscape # escBuf st @ [b]) (terminal st))))"
proof (intro conjI impI)
  show "esc_ok (new_loop t)" by (simp add: esc_ok_def new_loop_def)
next
  assume "esc_ok st \<and> iteration X st b bs = Some (n, st', e)"
  then show "esc_ok st'" using iteration_esc_ok by blast
next
  assume f: "feed X (new_loop t) inp = Some (st', e)"
  have "esc_ok (new_loop t)" by (simp add: esc_ok_def new_loop_def)
  from feed_esc_ok[OF this f] show "length (escBuf st') \<le> 16" "escCap st' = 16"
    by (simp_all add: esc_ok_def)
next
  assume a: "esc_ok st \<and> escaped st \<and> no_event X (escBuf st @ [b]) (terminal st)"
    and l: "length (escBuf st) < 15"
  from a have "iteration X st b bs = unhandled X 1 (st\<lparr>escBuf := escBuf st @ [b]\<rparr>)"
    by (intro escaped_pass) (simp_all add: esc_ok_def)
  with a l show "iteration X st b bs = Some (1, st\<lparr>escBuf := escBuf st @ [b]\<rparr>, None)"
    by (simp add: unhandled_def esc_ok_def)
next
  assume a: "esc_ok st \<and> escaped st \<and> no_event X (escBuf st @ [b]) (terminal st)"
    and l: "length (escBuf st) = 15"
  from a have "iteration X st b bs = unhandled X 1 (st\<lparr>escBuf := escBuf st @ [b]\<rparr>)"
    by (intro escaped_pass) (simp_all add: esc_ok_def)
  with a l show "iteration X st b bs =
             map_option (\<lambda>t'. (1, st\<lparr>escBuf := escBuf st @ [b], escaped := False, terminal := t'\<rparr>, None))
               (literal X (CharEscape # escBuf st @ [b]) (terminal st))"
    by (cases "literal X (CharEscape # escBuf st @ [b]) (terminal st)")
       (simp_all add: unhandled_def esc_ok_def CharEscape_literal)
qed

text \<open>
  The theorem with a decoder that reads \<open>ESC [\<close> and digits as incomplete: after
  \<open>ESC [ 1\<close>, and at the sixteenth byte after \<open>ESC\<close>.
\<close>

theorem escape_buffer_bounded_witness:
  "esc_ok (accumulating [0x5B, 0x31]) \<and> escaped (accumulating [0x5B, 0x31])
   \<and> no_event example_extern [0x5B, 0x31, 0x32] (terminal_of (buffer_of [] 0))
   \<and> iteration example_extern (accumulating [0x5B, 0x31]) 0x32 [] = Some (1, accumulating [0x5B, 0x31, 0x32], None)
   \<and> esc_ok (accumulating [0x5B, 0x31, 0x32, 0x33, 0x34, 0x35, 0x36, 0x37, 0x38, 0x39, 0x30, 0x31, 0x32, 0x33, 0x34])
   \<and> iteration example_extern
        (accumulating [0x5B, 0x31, 0x32, 0x33, 0x34, 0x35, 0x36, 0x37, 0x38, 0x39, 0x30, 0x31, 0x32, 0x33, 0x34])
        0x35 []
      = Some (1,
          \<lparr>terminal = terminal_of (buffer_of
               [0x1B, 0x5B, 0x31, 0x32, 0x33, 0x34, 0x35, 0x36, 0x37, 0x38, 0x39, 0x30, 0x31, 0x32, 0x33, 0x34, 0x35] 17),
           escaped = False,
           escBuf = [0x5B, 0x31, 0x32, 0x33, 0x34, 0x35, 0x36, 0x37, 0x38, 0x39, 0x30, 0x31, 0x32, 0x33, 0x34, 0x35],
           escCap = 16\<rparr>, None)
   \<and> feed example_extern (new_loop (terminal_of (buffer_of [] 0))) [0x1B, 0x5B, 0x31]
      = Some (accumulating [0x5B, 0x31], None)"
proof -
  let ?X = example_extern
  let ?T = "terminal_of (buffer_of [] 0)"
  let ?a2 = "accumulating [0x5B, 0x31]"
  let ?e15 = "[0x5B, 0x31, 0x32, 0x33, 0x34, 0x35, 0x36, 0x37, 0x38, 0x39, 0x30, 0x31, 0x32, 0x33, 0x34] :: byte list"
  let ?a15 = "accumulating ?e15"
  have ok2: "esc_ok ?a2" "escaped ?a2" and ok15: "esc_ok ?a15" "escaped ?a15"
    by (simp_all add: esc_ok_def accumulating_def)
  have refuse: "\<And>eb. eb \<noteq> [] \<Longrightarrow> 0x30 \<le> last eb \<and> last eb \<le> 0x39 \<Longrightarrow>
      no_event ?X (0x5B # eb) ?T"
    by (simp add: no_event_def example_extern_def example_decode_def escape_def escapeEx_def
          char_defs)
  have ne2: "no_event ?X (escBuf ?a2 @ [0x32]) (terminal ?a2)"
    using refuse[of "[0x31, 0x32]"] by (simp add: accumulating_def)
  have ne15: "no_event ?X (escBuf ?a15 @ [0x35]) (terminal ?a15)"
    using refuse[of "tl ?e15 @ [0x35]"] by (simp add: accumulating_def)
  have lit: "literal ?X (CharEscape # escBuf ?a15 @ [0x35]) (terminal ?a15)
      = Some (terminal_of (buffer_of
               [0x1B, 0x5B, 0x31, 0x32, 0x33, 0x34, 0x35, 0x36, 0x37, 0x38, 0x39, 0x30, 0x31, 0x32, 0x33, 0x34, 0x35] 17))"
    by (simp add: literal_def example_extern_def accumulating_def terminal_of_def
          WriteBytes_def WriteRunes_def concrete CopyAndGrow_def runes_of_string.simps
          DecodeRune.simps CharEscape_def)
  from escape_buffer_bounded[of ?T ?a2 ?X "0x32" "[]" 1 "accumulating [0x5B, 0x31, 0x32]" None "[0x1B, 0x5B, 0x31]"]
    ok2 ne2
  have i2: "iteration ?X ?a2 0x32 [] = Some (1, accumulating [0x5B, 0x31, 0x32], None)"
    by (simp add: accumulating_def)
  from escape_buffer_bounded[of ?T ?a15 ?X "0x35" "[]" 1 ?a15 None "[]"] ok15 ne15 lit
  have i15: "iteration ?X ?a15 0x35 [] = Some (1,
          \<lparr>terminal = terminal_of (buffer_of
               [0x1B, 0x5B, 0x31, 0x32, 0x33, 0x34, 0x35, 0x36, 0x37, 0x38, 0x39, 0x30, 0x31, 0x32, 0x33, 0x34, 0x35] 17),
           escaped = False,
           escBuf = [0x5B, 0x31, 0x32, 0x33, 0x34, 0x35, 0x36, 0x37, 0x38, 0x39, 0x30, 0x31, 0x32, 0x33, 0x34, 0x35],
           escCap = 16\<rparr>, None)"
    by (simp add: accumulating_def)
  have it0: "iteration ?X (new_loop ?T) 0x1B [0x5B, 0x31] = Some (1, accumulating [], None)"
    by (simp add: iteration_def new_loop_def accumulating_def example_extern_def example_decode_def
          unhandled_def CharEscape_def)
  have it1: "iteration ?X (accumulating []) 0x5B [0x31] = Some (1, accumulating [0x5B], None)"
    by (simp add: iteration_def accumulating_def example_extern_def example_decode_def
          unhandled_def CharEscape_def append_esc_def escape_def escapeEx_def char_defs
          terminal_of_def)
  have it2: "iteration ?X (accumulating [0x5B]) 0x31 [] = Some (1, accumulating [0x5B, 0x31], None)"
    by (simp add: iteration_def accumulating_def example_extern_def example_decode_def
          unhandled_def CharEscape_def append_esc_def escape_def escapeEx_def char_defs
          terminal_of_def)
  have fd: "feed ?X (new_loop ?T) [0x1B, 0x5B, 0x31] = Some (?a2, None)"
    by (simp add: feed.simps it0 it1 it2)
  from ok2 ok15 ne2 i2 i15 fd show ?thesis by (simp add: accumulating_def)
qed

subsection \<open>A session from the first key to the line result\<close>

lemma WriteRunes_result:
  "cursor_ok rb \<Longrightarrow> redraw_ok M rb \<Longrightarrow>
   WriteRunes M s rb = Some ((), rb\<lparr>buf := take (nat (idx rb)) (buf rb) @ s @ drop (nat (idx rb)) (buf rb),
                                 idx := idx rb + int (length s),
                                 hadClean := (hadClean rb \<and> \<not> interactive rb)\<rparr>)"
  by (auto simp: WriteRunes_def redraw cursor_ok_def sl CopyAndGrow_def)

lemma MoveBackward_result:
  "cursor_ok rb \<Longrightarrow> redraw_ok M rb \<Longrightarrow> idx rb \<noteq> 0 \<Longrightarrow>
   MoveBackward M rb = Some (True, rb\<lparr>idx := idx rb - 1, hadClean := (hadClean rb \<and> \<not> interactive rb)\<rparr>)"
  by (auto simp: MoveBackward_def redraw)

lemma MoveToLineEnd_result:
  "cursor_ok rb \<Longrightarrow> redraw_ok M rb \<Longrightarrow>
   \<exists>ok. MoveToLineEnd M rb = Some (ok, rb\<lparr>idx := int (length (buf rb)),
                                           hadClean := (hadClean rb \<and> \<not> interactive rb)\<rparr>)"
  by (auto simp: MoveToLineEnd_def redraw)

lemma runes_of_ascii: "b < 0x80 \<Longrightarrow> runes_of_string [b] = [uint b]"
  by (simp add: runes_of_string.simps DecodeRune.simps)

lemma pass_literal:
  assumes "\<not> escaped st" and "\<not> ioInsMode (terminal st)"
    and "b = 0x61 \<or> b = 0x62 \<or> b = 0x63"
    and "encodeControlChars X [b] = [b]"
    and "cursor_ok (trb (terminal st))" and "redraw_ok (model X) (trb (terminal st))"
  shows "\<exists>st'. iteration X st b bs = Some (1, st', None)
     \<and> \<not> escaped st' \<and> \<not> ioInsMode (terminal st')
     \<and> lineResultCh (terminal st') = lineResultCh (terminal st)
     \<and> redraw_ok (model X) (trb (terminal st'))
     \<and> buf (trb (terminal st'))
         = take (nat (idx (trb (terminal st)))) (buf (trb (terminal st))) @ [uint b]
           @ drop (nat (idx (trb (terminal st)))) (buf (trb (terminal st)))
     \<and> idx (trb (terminal st')) = idx (trb (terminal st)) + 1"
proof -
  from assms(3) have small: "b < 0x80" by auto
  from assms(3) have d: "dispatch X [b] (terminal st)
      = map_option (\<lambda>t'. (t', None)) (literal X [b] (terminal st))"
    by (cases "literal X [b] (terminal st)") (auto simp: dispatch_def at_def char_defs)
  have l: "literal X [b] (terminal st)
      = Some ((terminal st)\<lparr>trb := (trb (terminal st))\<lparr>buf := take (nat (idx (trb (terminal st)))) (buf (trb (terminal st))) @ [uint b]
           @ drop (nat (idx (trb (terminal st)))) (buf (trb (terminal st))),
         idx := idx (trb (terminal st)) + int (length [uint b]),
         hadClean := (hadClean (trb (terminal st)) \<and> \<not> interactive (trb (terminal st)))\<rparr>\<rparr>)"
    using assms(2,4) by (simp add: literal_def WriteBytes_def runes_of_ascii[OF small]
        WriteRunes_result[OF assms(5,6)])
  from assms(1,3) have "iteration X st b bs
      = do { (t2, e) \<leftarrow> dispatch X [b] (terminal st); Some (1, st\<lparr>terminal := t2\<rparr>, e) }"
    by (auto simp: iteration_def CharEscape_def)
  with d l assms(1,2,6) show ?thesis by (simp add: redraw_ok_def geometry_ok_def)
qed

lemma pass_backward:
  assumes "\<not> escaped st" and "cursor_ok (trb (terminal st))" and "idx (trb (terminal st)) \<noteq> 0"
    and "redraw_ok (model X) (trb (terminal st))"
  shows "\<exists>st'. iteration X st 0x02 bs = Some (1, st', None)
     \<and> \<not> escaped st' \<and> ioInsMode (terminal st') = ioInsMode (terminal st)
     \<and> lineResultCh (terminal st') = lineResultCh (terminal st)
     \<and> redraw_ok (model X) (trb (terminal st'))
     \<and> buf (trb (terminal st')) = buf (trb (terminal st))
     \<and> idx (trb (terminal st')) = idx (trb (terminal st)) - 1"
proof -
  have d: "dispatch X [0x02] (terminal st) = map_option (\<lambda>t'. (t', None)) (opBackward X (terminal st))"
    by (cases "opBackward X (terminal st)") (auto simp: dispatch_def at_def char_defs)
  from assms(1) have "iteration X st 0x02 bs
      = do { (t2, e) \<leftarrow> dispatch X [0x02] (terminal st); Some (1, st\<lparr>terminal := t2\<rparr>, e) }"
    by (auto simp: iteration_def CharEscape_def)
  with d assms show ?thesis
    by (simp add: opBackward_def on_buffer_def MoveBackward_result redraw_ok_def geometry_ok_def)
qed

lemma string_of_runes_snoc_newline:
  "string_of_runes (b @ [0x0A]) = string_of_runes b @ [0x0A]"
  by (simp add: string_of_runes_def EncodeRune_def)

lemma pass_return:
  assumes "\<not> escaped st" and "cursor_ok (trb (terminal st))" and "lineResultCh (terminal st) = []"
    and "redraw_ok (model X) (trb (terminal st))"
  shows "\<exists>st'. iteration X st 0x0D bs = Some (1, st', None)
     \<and> \<not> escaped st' \<and> ioInsMode (terminal st') = ioInsMode (terminal st)
     \<and> lineResultCh (terminal st') = [\<lparr>Line = string_of_runes (buf (trb (terminal st))), Err = None\<rparr>]
     \<and> buf (trb (terminal st')) = []
     \<and> idx (trb (terminal st')) = 0"
proof -
  let ?rb = "trb (terminal st)"
  from MoveToLineEnd_result[OF assms(2,4)] obtain ok where
    m: "MoveToLineEnd (model X) ?rb = Some (ok, ?rb\<lparr>idx := int (length (buf ?rb)),
                                         hadClean := (hadClean ?rb \<and> \<not> interactive ?rb)\<rparr>)"
    by blast
  let ?rb1 = "?rb\<lparr>idx := int (length (buf ?rb)), hadClean := (hadClean ?rb \<and> \<not> interactive ?rb)\<rparr>"
  have ok1: "cursor_ok ?rb1" by (simp add: cursor_ok_def)
  have rd1: "redraw_ok (model X) ?rb1" using assms(4) by (simp add: redraw_ok_def geometry_ok_def)
  have r: "opReturn X (terminal st) = Some ((terminal st)
      \<lparr>trb := ?rb\<lparr>idx := 0, buf := [], hadClean := (hadClean ?rb \<and> \<not> interactive ?rb)\<rparr>,
        lineResultCh := [\<lparr>Line = string_of_runes (buf ?rb), Err = None\<rparr>]\<rparr>)"
    using assms(3)
    by (simp add: opReturn_def m WriteRune_def WriteRunes_result[OF ok1 rd1] Bytes_def Copy_def
        string_of_runes_snoc_newline slice_to_ok sendLineResult_def ResetBuf_def resetBuf_def)
  have d: "dispatch X [0x0D] (terminal st) = map_option (\<lambda>t'. (t', None)) (opReturn X (terminal st))"
    by (cases "opReturn X (terminal st)") (auto simp: dispatch_def at_def char_defs)
  from assms(1) have "iteration X st 0x0D bs
      = do { (t2, e) \<leftarrow> dispatch X [0x0D] (terminal st); Some (1, st\<lparr>terminal := t2\<rparr>, e) }"
    by (auto simp: iteration_def CharEscape_def)
  with d r assms(1) show ?thesis by simp
qed

text \<open>
  Claim C2. From an empty buffer in the initial mode, with no result pending, the loop
  fed the bytes \<open>a\<close>, \<open>b\<close>, \<open>0x02\<close>, \<open>c\<close>, \<open>0x0D\<close> publishes one line result, with the
  line \<open>acb\<close> and no error, and leaves the buffer empty with the cursor at 0. It is
  still the only result in the channel when the input then ends. Here
  \<^verbatim>\<open>encodeControlChars\<close> leaves the three letters as they are, and \<open>redraw_ok\<close> holds:
  the redraw of the buffer returns.
\<close>

theorem session_acb:
  assumes "encodeControlChars X [0x61] = [0x61]" and "encodeControlChars X [0x62] = [0x62]"
    and "encodeControlChars X [0x63] = [0x63]"
    and "buf (trb t) = []" and "idx (trb t) = 0" and "lineResultCh t = []" and "\<not> ioInsMode t"
    and "redraw_ok (model X) (trb t)"
  shows "(\<exists>st'. feed X (new_loop t) [0x61, 0x62, 0x02, 0x63, 0x0D] = Some (st', None)
           \<and> lineResultCh (terminal st') = [\<lparr>Line = [0x61, 0x63, 0x62], Err = None\<rparr>]
           \<and> buf (trb (terminal st')) = [] \<and> idx (trb (terminal st')) = 0)
       \<and> (\<exists>t'. ioloop X t [0x61, 0x62, 0x02, 0x63, 0x0D] = Some t'
           \<and> lineResultCh t' = [\<lparr>Line = [0x61, 0x63, 0x62], Err = None\<rparr>]
           \<and> buf (trb t') = [] \<and> idx (trb t') = 0)"
proof -
  let ?s0 = "new_loop t"
  let ?M = "model X"
  have s0: "\<not> escaped ?s0" "\<not> ioInsMode (terminal ?s0)" "cursor_ok (trb (terminal ?s0))"
    "lineResultCh (terminal ?s0) = []" "buf (trb (terminal ?s0)) = []" "idx (trb (terminal ?s0)) = 0"
    "redraw_ok ?M (trb (terminal ?s0))"
    using assms(4-8) by (simp_all add: new_loop_def cursor_ok_def)
  from pass_literal[OF s0(1,2) _ assms(1) s0(3,7), of "[0x62, 0x02, 0x63, 0x0D]"] s0
  obtain s1 where i1: "iteration X ?s0 0x61 [0x62, 0x02, 0x63, 0x0D] = Some (1, s1, None)"
    and s1: "\<not> escaped s1" "\<not> ioInsMode (terminal s1)" "lineResultCh (terminal s1) = []"
      "buf (trb (terminal s1)) = [0x61]" "idx (trb (terminal s1)) = 1"
      "redraw_ok ?M (trb (terminal s1))"
    by auto
  have c1: "cursor_ok (trb (terminal s1))" using s1 by (simp add: cursor_ok_def)
  from pass_literal[OF s1(1,2) _ assms(2) c1 s1(6), of "[0x02, 0x63, 0x0D]"] s1
  obtain s2 where i2: "iteration X s1 0x62 [0x02, 0x63, 0x0D] = Some (1, s2, None)"
    and s2: "\<not> escaped s2" "\<not> ioInsMode (terminal s2)" "lineResultCh (terminal s2) = []"
      "buf (trb (terminal s2)) = [0x61, 0x62]" "idx (trb (terminal s2)) = 2"
      "redraw_ok ?M (trb (terminal s2))"
    by auto
  have c2: "cursor_ok (trb (terminal s2))" "idx (trb (terminal s2)) \<noteq> 0"
    using s2 by (simp_all add: cursor_ok_def)
  from pass_backward[OF s2(1) c2 s2(6), of "[0x63, 0x0D]"] s2
  obtain s3 where i3: "iteration X s2 0x02 [0x63, 0x0D] = Some (1, s3, None)"
    and s3: "\<not> escaped s3" "\<not> ioInsMode (terminal s3)" "lineResultCh (terminal s3) = []"
      "buf (trb (terminal s3)) = [0x61, 0x62]" "idx (trb (terminal s3)) = 1"
      "redraw_ok ?M (trb (terminal s3))"
    by auto
  have c3: "cursor_ok (trb (terminal s3))" using s3 by (simp add: cursor_ok_def)
  from pass_literal[OF s3(1,2) _ assms(3) c3 s3(6), of "[0x0D]"] s3
  obtain s4 where i4: "iteration X s3 0x63 [0x0D] = Some (1, s4, None)"
    and s4: "\<not> escaped s4" "\<not> ioInsMode (terminal s4)" "lineResultCh (terminal s4) = []"
      "buf (trb (terminal s4)) = [0x61, 0x63, 0x62]" "idx (trb (terminal s4)) = 2"
      "redraw_ok ?M (trb (terminal s4))"
    by auto
  have c4: "cursor_ok (trb (terminal s4))" using s4 by (simp add: cursor_ok_def)
  from pass_return[OF s4(1) c4 s4(3,6), of "[]"] s4
  obtain s5 where i5: "iteration X s4 0x0D [] = Some (1, s5, None)"
    and s5: "lineResultCh (terminal s5) = [\<lparr>Line = [0x61, 0x63, 0x62], Err = None\<rparr>]"
      "buf (trb (terminal s5)) = []" "idx (trb (terminal s5)) = 0"
    by (auto simp: string_of_runes_def EncodeRune_def)
  have f: "feed X ?s0 [0x61, 0x62, 0x02, 0x63, 0x0D] = Some (s5, None)"
    by (simp add: feed.simps i1 i2 i3 i4 i5)
  have "ioloop X t [0x61, 0x62, 0x02, 0x63, 0x0D]
      = Some (sendLineResult (Bytes (trb (terminal s5))) (Some EOF) ((terminal s5)\<lparr>ioErr := Some EOF\<rparr>))"
    by (simp add: ioloop_def f)
  with f s5 show ?thesis by (simp add: sendLineResult_def)
qed

text \<open>The theorem at a terminal around an empty buffer.\<close>

theorem session_acb_witness:
  "encodeControlChars example_extern [0x61] = [0x61]
   \<and> buf (trb (terminal_of (buffer_of [] 0))) = [] \<and> idx (trb (terminal_of (buffer_of [] 0))) = 0
   \<and> lineResultCh (terminal_of (buffer_of [] 0)) = [] \<and> \<not> ioInsMode (terminal_of (buffer_of [] 0))
   \<and> redraw_ok (model example_extern) (trb (terminal_of (buffer_of [] 0)))
   \<and> (\<exists>st'. feed example_extern (new_loop (terminal_of (buffer_of [] 0))) [0x61, 0x62, 0x02, 0x63, 0x0D]
               = Some (st', None)
           \<and> lineResultCh (terminal st') = [\<lparr>Line = [0x61, 0x63, 0x62], Err = None\<rparr>]
           \<and> buf (trb (terminal st')) = [] \<and> idx (trb (terminal st')) = 0)"
proof -
  have e: "encodeControlChars example_extern [0x61] = [0x61]"
    "encodeControlChars example_extern [0x62] = [0x62]"
    "encodeControlChars example_extern [0x63] = [0x63]"
    by (simp_all add: example_extern_def)
  have t: "buf (trb (terminal_of (buffer_of [] 0))) = []" "idx (trb (terminal_of (buffer_of [] 0))) = 0"
    "lineResultCh (terminal_of (buffer_of [] 0)) = []" "\<not> ioInsMode (terminal_of (buffer_of [] 0))"
    "redraw_ok (model example_extern) (trb (terminal_of (buffer_of [] 0)))"
    by (simp_all add: terminal_of_def example_extern_def concrete)
  from session_acb[OF e t] e(1) t show ?thesis by blast
qed

end
